theory Spec2Isabelle
  imports Complex_Main "HOL-Library.AList" "HOL-Library.Sublist" "HOL-Library.Log_Nat"
begin

section \<open>JavaScript values\<close>

text \<open>The decimal digits of a number, as a template literal prints an index or a count.\<close>

fun show_nat :: "nat \<Rightarrow> string" where
  "show_nat n =
     (if n < 10 then [''0123456789'' ! n]
      else show_nat (n div 10) @ [''0123456789'' ! (n mod 10)])"

declare show_nat.simps [simp del]

text \<open>
  The pipeline works on a parsed Cucumber report, so a value is a JSON value. An object is
  the list of its own properties in enumeration order; the first binding of a key is the
  property's value (a parsed object has no key twice). A number is read through its zero
  test only, so it is kept as a rational. Strings are lists of 8-bit code units (Latin-1).
\<close>

datatype json =
    JNull
  | JBool bool
  | JNum rat
  | JStr string
  | JArr "json list"
  | JObj "(string \<times> json) list"

text \<open>A TypeError, with the message of V8.\<close>

datatype js_error = TypeError string

text \<open>ToBoolean.\<close>

fun truthy :: "json \<Rightarrow> bool" where
  "truthy JNull = False"
| "truthy (JBool b) = b"
| "truthy (JNum n) = (n \<noteq> 0)"
| "truthy (JStr s) = (s \<noteq> [])"
| "truthy (JArr xs) = True"
| "truthy (JObj kvs) = True"

text \<open>
  The own enumerable properties of a value, as the spread \<open>{...v}\<close> copies them: the
  properties of an object, the elements of an array under their indices. The code spreads
  objects and arrays only (each spread is behind a \<open>typeof v === 'object'\<close> guard).
\<close>

fun own_props :: "json \<Rightarrow> (string \<times> json) list" where
  "own_props (JObj kvs) = kvs"
| "own_props (JArr xs) = zip (map show_nat [0..<length xs]) xs"
| "own_props v = []"

text \<open>
  \<open>v.k\<close> for a value \<open>v\<close> that is not null; \<open>None\<close> is \<open>undefined\<close>.
  None of the property names the code reads (name, id, type, elements, scenarios, steps,
  before, after, result, status, keyword, match, error_message, errorMessage) is inherited
  from a prototype, so a read finds an own property or nothing.
\<close>

definition jget :: "json \<Rightarrow> string \<Rightarrow> json option" where
  "jget v k = map_of (own_props v) k"

text \<open>\<open>if (x)\<close> on a value that may be undefined: the value when it is truthy.\<close>

definition if_truthy :: "json option \<Rightarrow> json option" where
  "if_truthy x = (case x of None \<Rightarrow> None | Some v \<Rightarrow> if truthy v then Some v else None)"

text \<open>\<open>x || d\<close>.\<close>

definition js_or :: "json option \<Rightarrow> json \<Rightarrow> json" where
  "js_or x d = (case if_truthy x of None \<Rightarrow> d | Some v \<Rightarrow> v)"

text \<open>\<open>x && x.k\<close>, read as a condition and as a value.\<close>

definition and_get :: "json option \<Rightarrow> string \<Rightarrow> json option" where
  "and_get x k = (case if_truthy x of None \<Rightarrow> None | Some v \<Rightarrow> if_truthy (jget v k))"

text \<open>\<open>s || d\<close> for a string that may be null.\<close>

definition str_or :: "string option \<Rightarrow> string \<Rightarrow> string" where
  "str_or x d = (case x of None \<Rightarrow> d | Some s \<Rightarrow> if s = [] then d else s)"

text \<open>\<open>typeof v === 'object'\<close> for a truthy value.\<close>

fun is_object :: "json \<Rightarrow> bool" where
  "is_object (JArr xs) = True"
| "is_object (JObj kvs) = True"
| "is_object v = False"

text \<open>
  Whether ToString raises. An object with an own property \<open>toString\<close> has no callable
  \<open>toString\<close> (no JSON value is callable) and \<open>Object.prototype.valueOf\<close> returns the
  object itself, so the conversion ends in a TypeError. An array is joined: each element
  but null is converted in turn.
\<close>

fun toString_throws :: "json \<Rightarrow> bool" where
  "toString_throws (JObj kvs) = (''toString'' \<in> set (map fst kvs))"
| "toString_throws (JArr xs) = (\<exists>x \<in> set xs. toString_throws x)"
| "toString_throws v = False"

subsection \<open>Strings\<close>

text \<open>\<open>String.prototype.trim\<close>: the white space below U+0100.\<close>

definition is_space :: "char \<Rightarrow> bool" where
  "is_space c = (c \<in> set [CHR 0x09, CHR 0x0A, CHR 0x0B, CHR 0x0C, CHR 0x0D, CHR 0x20, CHR 0xA0])"

definition trim :: "string \<Rightarrow> string" where
  "trim s = rev (dropWhile is_space (rev (dropWhile is_space s)))"

section \<open>TestStatusCalculator\<close>

record calc_options =
  treatSetupFailuresAsFailed :: bool
  treatTeardownFailuresAsFailed :: bool

text \<open>The constructor with no options given: both flags are on.\<close>

definition default_calc_options :: calc_options where
  "default_calc_options =
     \<lparr>treatSetupFailuresAsFailed = True, treatTeardownFailuresAsFailed = True\<rparr>"

definition getHookStatus :: "json \<Rightarrow> json" where
  "getHookStatus hook =
     (if \<not> truthy hook then JStr ''unknown''
      else case if_truthy (jget hook ''result'') of
        Some r \<Rightarrow> js_or (jget r ''status'') (JStr ''unknown'')
      | None \<Rightarrow>
          (case if_truthy (jget hook ''status'') of
             Some s \<Rightarrow> s
           | None \<Rightarrow> JStr ''unknown''))"

definition getStepStatus :: "json \<Rightarrow> json" where
  "getStepStatus step =
     (if \<not> truthy step then JStr ''unknown''
      else case if_truthy (jget step ''result'') of
        Some r \<Rightarrow> js_or (jget r ''status'') (JStr ''unknown'')
      | None \<Rightarrow>
          (case if_truthy (jget step ''status'') of
             Some s \<Rightarrow> s
           | None \<Rightarrow> JStr ''unknown''))"

definition sanitizeErrorMessage :: "json \<Rightarrow> string" where
  "sanitizeErrorMessage errorMessage =
     (case errorMessage of
        JStr s \<Rightarrow>
          if s = [] then ''Unknown error''
          else if length s > 500 then take 500 s @ ''... (truncated)''
          else trim s
      | _ \<Rightarrow> ''Unknown error'')"

definition extractErrorMessage :: "json \<Rightarrow> string option" where
  "extractErrorMessage item =
     (if \<not> truthy item then None
      else case and_get (jget item ''result'') ''error_message'' of
        Some m \<Rightarrow> Some (sanitizeErrorMessage m)
      | None \<Rightarrow>
      (case and_get (jget item ''result'') ''errorMessage'' of
        Some m \<Rightarrow> Some (sanitizeErrorMessage m)
      | None \<Rightarrow>
      (case if_truthy (jget item ''error_message'') of
        Some m \<Rightarrow> Some (sanitizeErrorMessage m)
      | None \<Rightarrow>
      (case if_truthy (jget item ''result'') of
        Some r \<Rightarrow>
          if jget r ''status'' = Some (JStr ''failed'')
          then Some ''Step or hook failed (no error message available)''
          else None
      | None \<Rightarrow> None))))"

record hook_phase =
  hook_status :: string
  hasHooks :: bool
  hook_failureReason :: "string option"

record exec_phase =
  exec_status :: string
  hasSteps :: bool
  exec_failureReason :: "string option"

text \<open>The loop over the hooks of a phase; it returns at the first failed hook.\<close>

fun hooks_loop :: "json list \<Rightarrow> hook_phase \<Rightarrow> hook_phase" where
  "hooks_loop [] result = result"
| "hooks_loop (hook # hooks) result =
     (let hookStatus = getHookStatus hook in
      if hookStatus = JStr ''failed''
      then result\<lparr>hook_status := ''failed'', hook_failureReason := extractErrorMessage hook\<rparr>
      else if hookStatus = JStr ''passed''
      then hooks_loop hooks (result\<lparr>hook_status := ''passed''\<rparr>)
      else hooks_loop hooks result)"

definition analyzeSetupPhase :: "json \<Rightarrow> hook_phase" where
  "analyzeSetupPhase scenario =
     (let result = \<lparr>hook_status = ''not_executed'', hasHooks = False,
                     hook_failureReason = None\<rparr> in
      case jget scenario ''before'' of
        Some (JArr hooks) \<Rightarrow> hooks_loop hooks (result\<lparr>hasHooks := (length hooks > 0)\<rparr>)
      | _ \<Rightarrow> result)"

definition analyzeTeardownPhase :: "json \<Rightarrow> hook_phase" where
  "analyzeTeardownPhase scenario =
     (let result = \<lparr>hook_status = ''not_executed'', hasHooks = False,
                     hook_failureReason = None\<rparr> in
      case jget scenario ''after'' of
        Some (JArr hooks) \<Rightarrow> hooks_loop hooks (result\<lparr>hasHooks := (length hooks > 0)\<rparr>)
      | _ \<Rightarrow> result)"

record step_flags =
  hasPassedSteps :: bool
  hasFailedSteps :: bool
  hasSkippedSteps :: bool
  failureReason :: "string option"

text \<open>The loop over the steps: the switch on each step's status.\<close>

fun steps_loop :: "json list \<Rightarrow> step_flags \<Rightarrow> step_flags" where
  "steps_loop [] flags = flags"
| "steps_loop (step # steps) flags =
     (let stepStatus = getStepStatus step in
      if stepStatus = JStr ''passed''
      then steps_loop steps (flags\<lparr>hasPassedSteps := True\<rparr>)
      else if stepStatus = JStr ''failed''
      then steps_loop steps
             (flags\<lparr>hasFailedSteps := True, failureReason := extractErrorMessage step\<rparr>)
      else if stepStatus = JStr ''skipped''
      then steps_loop steps (flags\<lparr>hasSkippedSteps := True\<rparr>)
      else steps_loop steps flags)"

definition analyzeExecutionPhase :: "json \<Rightarrow> exec_phase" where
  "analyzeExecutionPhase scenario =
     (case jget scenario ''steps'' of
        Some (JArr steps) \<Rightarrow>
          (let flags = steps_loop steps
                 \<lparr>hasPassedSteps = False, hasFailedSteps = False, hasSkippedSteps = False,
                  failureReason = None\<rparr> in
           \<lparr>exec_status =
              (if hasFailedSteps flags then ''failed''
               else if hasPassedSteps flags \<and> \<not> hasSkippedSteps flags then ''passed''
               else if hasSkippedSteps flags \<and> \<not> hasPassedSteps flags then ''skipped''
               else if hasPassedSteps flags \<and> hasSkippedSteps flags then ''mixed''
               else ''not_executed''),
            hasSteps = (length steps > 0),
            exec_failureReason = failureReason flags\<rparr>)
      | _ \<Rightarrow> \<lparr>exec_status = ''not_executed'', hasSteps = False, exec_failureReason = None\<rparr>)"

definition determineOverallStatus ::
  "calc_options \<Rightarrow> hook_phase \<Rightarrow> exec_phase \<Rightarrow> hook_phase \<Rightarrow> string \<times> string" where
  "determineOverallStatus opts setupResult executionResult teardownResult =
     (if treatSetupFailuresAsFailed opts \<and> hook_status setupResult = ''failed''
      then (''failed'',
            ''Setup failed: '' @ str_or (hook_failureReason setupResult) ''Before hook failed'')
      else if treatTeardownFailuresAsFailed opts \<and> hook_status teardownResult = ''failed''
      then (''failed'',
            ''Teardown failed: '' @ str_or (hook_failureReason teardownResult) ''After hook failed'')
      else if exec_status executionResult = ''failed''
      then (''failed'',
            ''Test execution failed: '' @ str_or (exec_failureReason executionResult) ''Step failed'')
      else if exec_status executionResult = ''passed''
      then (''passed'', ''All steps passed successfully'')
      else if exec_status executionResult = ''skipped''
      then (''skipped'', ''Test steps were skipped'')
      else if exec_status executionResult = ''mixed''
      then (''failed'', ''Some steps failed or were skipped'')
      else if exec_status executionResult = ''not_executed''
      then (if \<not> hasSteps executionResult
            then (''skipped'', ''No executable steps found'')
            else (''unknown'', ''Steps present but execution status unclear''))
      else (''unknown'', ''Unable to determine execution status''))"

record details =
  setupStatus :: string
  executionStatus :: string
  teardownStatus :: string
  details_hasSteps :: bool
  hasSetup :: bool
  hasTeardown :: bool

record status_result =
  status :: string
  reason :: string
  details :: "details option"

text \<open>
  The template literal of the log line, \<open>scenario.name || 'unnamed'\<close> converted to a
  string. It is the one expression inside the \<open>try\<close> block that can raise; what the
  logger prints is not modelled.
\<close>

definition log_line :: "json \<Rightarrow> js_error + unit" where
  "log_line scenario =
     (if toString_throws (js_or (jget scenario ''name'') (JStr ''unnamed''))
      then Inl (TypeError ''Cannot convert object to primitive value'')
      else Inr ())"

definition calculateScenarioStatus :: "calc_options \<Rightarrow> json \<Rightarrow> status_result" where
  "calculateScenarioStatus opts scenario =
     (if \<not> truthy scenario
      then \<lparr>status = ''unknown'', reason = ''Scenario is null or undefined'', details = None\<rparr>
      else
        let setupResult = analyzeSetupPhase scenario;
            executionResult = analyzeExecutionPhase scenario;
            teardownResult = analyzeTeardownPhase scenario;
            d = \<lparr>setupStatus = hook_status setupResult,
                 executionStatus = exec_status executionResult,
                 teardownStatus = hook_status teardownResult,
                 details_hasSteps = hasSteps executionResult,
                 hasSetup = hasHooks setupResult,
                 hasTeardown = hasHooks teardownResult\<rparr>;
            overallStatus = determineOverallStatus opts setupResult executionResult teardownResult
        in case log_line scenario of
             Inr _ \<Rightarrow> \<lparr>status = fst overallStatus, reason = snd overallStatus, details = Some d\<rparr>
           | Inl (TypeError message) \<Rightarrow>
               \<lparr>status = ''error'', reason = ''Status calculation error: '' @ message,
                details = Some d\<rparr>)"

record counts =
  passed :: nat
  failed :: nat
  skipped :: nat
  errors :: nat
  total :: nat

record feature_result =
  feature_status :: string
  feature_reason :: string
  feature_counts :: "counts option"

text \<open>
  \<open>feature.elements.filter(el => el.type !== 'background')\<close>: reading \<open>type\<close>
  of a null element raises.
\<close>

fun filter_scenarios :: "json list \<Rightarrow> js_error + json list" where
  "filter_scenarios [] = Inr []"
| "filter_scenarios (el # els) =
     (if el = JNull then Inl (TypeError ''Cannot read properties of null (reading 'type')'')
      else case filter_scenarios els of
        Inl e \<Rightarrow> Inl e
      | Inr rest \<Rightarrow>
          Inr (if jget el ''type'' \<noteq> Some (JStr ''background'') then el # rest else rest))"

text \<open>The tally of the \<open>forEach\<close>; \<open>total\<close> is filled in at the return.\<close>

fun tally :: "calc_options \<Rightarrow> json list \<Rightarrow> counts \<Rightarrow> counts" where
  "tally opts [] c = c"
| "tally opts (scenario # scenarios) c =
     (let scenarioStatus = status (calculateScenarioStatus opts scenario) in
      if scenarioStatus = ''passed'' then tally opts scenarios (c\<lparr>passed := passed c + 1\<rparr>)
      else if scenarioStatus = ''failed'' then tally opts scenarios (c\<lparr>failed := failed c + 1\<rparr>)
      else if scenarioStatus = ''skipped'' then tally opts scenarios (c\<lparr>skipped := skipped c + 1\<rparr>)
      else tally opts scenarios (c\<lparr>errors := errors c + 1\<rparr>))"

definition calculateFeatureStatus :: "calc_options \<Rightarrow> json \<Rightarrow> js_error + feature_result" where
  "calculateFeatureStatus opts feature =
     (if \<not> truthy feature \<or> if_truthy (jget feature ''elements'') = None
      then Inr \<lparr>feature_status = ''unknown'', feature_reason = ''Feature has no scenarios'',
                feature_counts = None\<rparr>
      else case jget feature ''elements'' of
        Some (JArr elements) \<Rightarrow>
          (case filter_scenarios elements of
             Inl e \<Rightarrow> Inl e
           | Inr scenarios \<Rightarrow>
               if length scenarios = 0
               then Inr \<lparr>feature_status = ''unknown'',
                         feature_reason = ''No executable scenarios found'',
                         feature_counts = None\<rparr>
               else
                 let c = tally opts scenarios
                           \<lparr>passed = 0, failed = 0, skipped = 0, errors = 0, total = 0\<rparr>;
                     n = length scenarios;
                     sr =
                       (if errors c > 0
                        then (''error'', show_nat (errors c) @ '' scenarios have errors'')
                        else if failed c > 0
                        then (''failed'', show_nat (failed c) @ '' of '' @ show_nat n
                                          @ '' scenarios failed'')
                        else if skipped c = n
                        then (''skipped'', ''All scenarios were skipped'')
                        else if passed c = n
                        then (''passed'', ''All scenarios passed'')
                        else (''mixed'', show_nat (passed c) @ '' passed, '' @ show_nat (failed c)
                                         @ '' failed, '' @ show_nat (skipped c) @ '' skipped''))
                 in Inr \<lparr>feature_status = fst sr, feature_reason = snd sr,
                         feature_counts = Some (c\<lparr>total := n\<rparr>)\<rparr>)
      | _ \<Rightarrow> Inl (TypeError ''feature.elements.filter is not a function''))"

text \<open>The elements of a property that holds an array; none when it holds anything else.\<close>

definition array_items :: "json option \<Rightarrow> json list" where
  "array_items x = (case x of Some (JArr xs) \<Rightarrow> xs | _ \<Rightarrow> [])"

section \<open>DataIntegrityValidator\<close>

text \<open>
  A set of counts is an object whose properties are numbers; the counts are integers. The
  tolerance percentage is a number, kept as a rational. The arithmetic of
  \<open>validateTestCounts\<close> and \<open>compareCountSets\<close> on them is the binary64
  arithmetic of JavaScript, defined next. The increments of
  \<open>calculateSummaryFromRawData\<close> are integer additions: they count the elements of
  arrays, whose lengths are below \<open>2^32\<close>. The calls into the error handler and the
  validation history only log; they are left out.
\<close>

subsection \<open>Binary64 arithmetic\<close>

text \<open>
  A JavaScript number is a binary64 value, and each arithmetic operation returns the exact
  result rounded to the nearest binary64 value, ties to the even significand. The values
  are kept as rationals; the exponent range of binary64 is not modelled (nothing below
  overflows or is subnormal).
\<close>

text \<open>The nearest integer, ties to even.\<close>

definition round_even :: "rat \<Rightarrow> int" where
  "round_even x =
     (let f = \<lfloor>x\<rfloor>; d = x - of_int f in
      if d < 1 / 2 then f else if d > 1 / 2 then f + 1 else if even f then f else f + 1)"

text \<open>
  The binary exponent \<open>e\<close> of a number that is not zero:
  \<open>2^e \<le> |x| < 2^(e+1)\<close>, found from the bit lengths of numerator and denominator.
\<close>

definition binade :: "rat \<Rightarrow> int" where
  "binade x =
     (let (p, q) = quotient_of \<bar>x\<bar>; d = bitlen p - bitlen q in
      if 2 powi d \<le> \<bar>x\<bar> then d else d - 1)"

text \<open>Rounding to 53 significant bits.\<close>

definition round_double :: "rat \<Rightarrow> rat" where
  "round_double x =
     (if x = 0 then 0
      else let u = 2 powi (binade x - 52) in of_int (round_even (x / u)) * u)"

text \<open>\<open>a + b\<close> and \<open>a - b\<close> on two integers; the rounded results are integers again.\<close>

definition js_plus :: "int \<Rightarrow> int \<Rightarrow> int" where
  "js_plus a b = \<lfloor>round_double (of_int a + of_int b)\<rfloor>"

definition js_minus :: "int \<Rightarrow> int \<Rightarrow> int" where
  "js_minus a b = \<lfloor>round_double (of_int a - of_int b)\<rfloor>"

text \<open>
  \<open>Math.floor(x * t / 100)\<close> on an integer and a percentage: a product, a quotient, the
  floor.
\<close>

definition js_floor_percent :: "int \<Rightarrow> rat \<Rightarrow> int" where
  "js_floor_percent x t = \<lfloor>round_double (round_double (of_int x * t) / 100)\<rfloor>"

type_synonym count_set = "(string \<times> int) list"

text \<open>\<open>counts[field] || 0\<close>.\<close>

definition count_or_zero :: "count_set \<Rightarrow> string \<Rightarrow> int" where
  "count_or_zero cs field = (case map_of cs field of None \<Rightarrow> 0 | Some n \<Rightarrow> n)"

text \<open>\<open>summary.field++\<close> and \<open>summary.field += n\<close>.\<close>

definition add_count :: "string \<Rightarrow> int \<Rightarrow> count_set \<Rightarrow> count_set" where
  "add_count field n cs = AList.update field (count_or_zero cs field + n) cs"

record integrity_options =
  tolerancePercentage :: rat

text \<open>The constructor: \<open>options.tolerancePercentage || 5\<close>.\<close>

definition integrity_options :: "rat option \<Rightarrow> integrity_options" where
  "integrity_options t =
     \<lparr>tolerancePercentage = (case t of None \<Rightarrow> 5 | Some n \<Rightarrow> if n = 0 then 5 else n)\<rparr>"

text \<open>
  \<open>steps.some(step => (step.result ? step.result.status : step.status) === wanted)\<close>:
  it stops at the first match, and reading \<open>result\<close> of a null step raises.
\<close>

fun some_status :: "string \<Rightarrow> json list \<Rightarrow> js_error + bool" where
  "some_status wanted [] = Inr False"
| "some_status wanted (step # steps) =
     (if step = JNull then Inl (TypeError ''Cannot read properties of null (reading 'result')'')
      else
        let st = (case if_truthy (jget step ''result'') of
                    Some r \<Rightarrow> jget r ''status''
                  | None \<Rightarrow> jget step ''status'')
        in if st = Some (JStr wanted) then Inr True else some_status wanted steps)"

definition summary_scenario :: "json \<Rightarrow> count_set \<Rightarrow> js_error + count_set" where
  "summary_scenario scenario summary =
     (if scenario = JNull then Inl (TypeError ''Cannot read properties of null (reading 'type')'')
      else if jget scenario ''type'' = Some (JStr ''background'') then Inr summary
      else
        let summary1 = add_count ''scenarios'' 1 summary in
        case jget scenario ''steps'' of
          Some (JArr steps) \<Rightarrow>
            (let summary2 = add_count ''steps'' (int (length steps)) summary1 in
             case some_status ''failed'' steps of
               Inl e \<Rightarrow> Inl e
             | Inr failedSteps \<Rightarrow>
                 (case some_status ''passed'' steps of
                    Inl e \<Rightarrow> Inl e
                  | Inr passedSteps \<Rightarrow>
                      Inr (add_count
                             (if failedSteps then ''failed''
                              else if passedSteps then ''passed''
                              else ''skipped'') 1 summary2)))
        | _ \<Rightarrow> Inr (add_count ''errors'' 1 summary1))"

fun summary_elements :: "json list \<Rightarrow> count_set \<Rightarrow> js_error + count_set" where
  "summary_elements [] summary = Inr summary"
| "summary_elements (scenario # elements) summary =
     (case summary_scenario scenario summary of
        Inl e \<Rightarrow> Inl e
      | Inr summary1 \<Rightarrow> summary_elements elements summary1)"

text \<open>
  \<open>feature.elements || feature.scenarios || []\<close> and its \<open>forEach\<close>: a null
  feature raises, and so does a value that is not an array.
\<close>

definition summary_feature :: "json \<Rightarrow> count_set \<Rightarrow> js_error + count_set" where
  "summary_feature feature summary =
     (if feature = JNull
      then Inl (TypeError ''Cannot read properties of null (reading 'elements')'')
      else
        case js_or (jget feature ''elements'') (js_or (jget feature ''scenarios'') (JArr [])) of
          JArr elements \<Rightarrow> summary_elements elements (add_count ''features'' 1 summary)
        | _ \<Rightarrow> Inl (TypeError ''elements.forEach is not a function''))"

fun summary_features :: "json list \<Rightarrow> count_set \<Rightarrow> js_error + count_set" where
  "summary_features [] summary = Inr summary"
| "summary_features (feature # features) summary =
     (case summary_feature feature summary of
        Inl e \<Rightarrow> Inl e
      | Inr summary1 \<Rightarrow> summary_features features summary1)"

definition calculateSummaryFromRawData :: "json \<Rightarrow> js_error + count_set" where
  "calculateSummaryFromRawData jsonData =
     (let summary = [(''features'', 0), (''scenarios'', 0), (''steps'', 0), (''passed'', 0),
                     (''failed'', 0), (''skipped'', 0), (''errors'', 0)] in
      case jsonData of
        JArr features \<Rightarrow> summary_features features summary
      | _ \<Rightarrow> Inr summary)"

record discrepancy =
  disc_type :: string
  disc_field :: string
  disc_expected :: "int option"
  disc_provided :: "int option"
  disc_calculated :: int
  disc_difference :: int
  disc_tolerance :: "int option"

record issue =
  issue_type :: string
  issue_message :: string

record validation =
  isValid :: bool
  issues :: "issue list"
  summary :: count_set
  calculatedSummary :: "count_set option"
  discrepancies :: "discrepancy list"

text \<open>The body of the \<open>forEach\<close> over \<open>fieldsToCheck\<close>.\<close>

definition check_field :: "integrity_options \<Rightarrow> validation \<Rightarrow> string \<Rightarrow> validation" where
  "check_field opts v field =
     (let provided = count_or_zero (summary v)
                       (if field = ''scenarios'' then ''totalTests'' else field);
          calculated = (case calculatedSummary v of
                          None \<Rightarrow> 0
                        | Some cs \<Rightarrow> count_or_zero cs field)
      in if provided \<noteq> calculated
         then
           let tolerance = max 1 (js_floor_percent provided (tolerancePercentage opts));
               difference = \<bar>js_minus provided calculated\<bar>
           in if difference > tolerance
              then v\<lparr>discrepancies := discrepancies v @
                        [\<lparr>disc_type = ''cross_validation_mismatch'', disc_field = field,
                          disc_expected = None, disc_provided = Some provided,
                          disc_calculated = calculated,
                          disc_difference = js_minus calculated provided,
                          disc_tolerance = Some tolerance\<rparr>],
                      isValid := False\<rparr>
              else v
         else v)"

text \<open>
  \<open>validateTestCounts(summary, reportData)\<close>. An exception inside the \<open>try\<close> block
  (the summary of a malformed report) ends in the \<open>catch\<close>: the validation is invalid
  and carries a \<open>validation_error\<close> issue, with the discrepancies found before it.
\<close>

definition validateTestCounts :: "integrity_options \<Rightarrow> count_set \<Rightarrow> json \<Rightarrow> validation" where
  "validateTestCounts opts summary0 reportData =
     (let validation =
            \<lparr>isValid = True, issues = [],
             summary = [(''totalTests'', count_or_zero summary0 ''scenarios''),
                        (''passed'', count_or_zero summary0 ''passed''),
                        (''failed'', count_or_zero summary0 ''failed''),
                        (''skipped'', count_or_zero summary0 ''skipped''),
                        (''errors'', count_or_zero summary0 ''errors'')],
             calculatedSummary = None, discrepancies = []\<rparr>;
          totalTests = count_or_zero (summary validation) ''totalTests'';
          expectedTotal =
            js_plus (js_plus (js_plus (count_or_zero (summary validation) ''passed'')
                                      (count_or_zero (summary validation) ''failed''))
                             (count_or_zero (summary validation) ''skipped''))
                    (count_or_zero (summary validation) ''errors'');
          validation1 =
            (if expectedTotal \<noteq> totalTests
             then validation\<lparr>discrepancies := discrepancies validation @
                     [\<lparr>disc_type = ''count_mismatch'', disc_field = ''total_scenarios'',
                       disc_expected = Some totalTests, disc_provided = None,
                       disc_calculated = expectedTotal,
                       disc_difference = js_minus expectedTotal totalTests,
                       disc_tolerance = None\<rparr>],
                   isValid := False\<rparr>
             else validation)
      in case reportData of
           JArr features \<Rightarrow>
             (case calculateSummaryFromRawData reportData of
                Inl (TypeError msg) \<Rightarrow>
                  validation1\<lparr>isValid := False,
                    issues := issues validation1 @
                      [\<lparr>issue_type = ''validation_error'', issue_message = msg\<rparr>]\<rparr>
              | Inr calculated \<Rightarrow>
                  foldl (check_field opts) (validation1\<lparr>calculatedSummary := Some calculated\<rparr>)
                    [''scenarios'', ''passed'', ''failed'', ''skipped''])
         | _ \<Rightarrow> validation1)"

record field_discrepancy =
  field :: string
  value1 :: int
  value2 :: int
  difference :: int
  tolerance :: int

record comparison =
  comparisonType :: string
  isConsistent :: bool
  comparison_discrepancies :: "field_discrepancy list"
  comparison_tolerance :: rat

text \<open>The body of the \<open>forEach\<close> over \<open>fieldsToCompare\<close>.\<close>

definition compare_field ::
  "integrity_options \<Rightarrow> count_set \<Rightarrow> count_set \<Rightarrow> comparison \<Rightarrow> string \<Rightarrow> comparison" where
  "compare_field opts counts1 counts2 c fld =
     (let v1 = count_or_zero counts1 fld;
          v2 = count_or_zero counts2 fld
      in if v1 \<noteq> v2
         then
           let tol = max 1 (js_floor_percent (max v1 v2) (tolerancePercentage opts));
               diff = \<bar>js_minus v1 v2\<bar>
           in if diff > tol
              then c\<lparr>comparison_discrepancies := comparison_discrepancies c @
                        [\<lparr>field = fld, value1 = v1, value2 = v2,
                          difference = js_minus v2 v1, tolerance = tol\<rparr>],
                      isConsistent := False\<rparr>
              else c
         else c)"

definition fieldsToCompare :: "string list" where
  "fieldsToCompare = [''features'', ''scenarios'', ''steps'', ''passed'', ''failed'', ''skipped'']"

definition compareCountSets ::
  "integrity_options \<Rightarrow> count_set \<Rightarrow> count_set \<Rightarrow> string \<Rightarrow> comparison" where
  "compareCountSets opts counts1 counts2 ctype =
     foldl (compare_field opts counts1 counts2)
       \<lparr>comparisonType = ctype, isConsistent = True, comparison_discrepancies = [],
        comparison_tolerance = tolerancePercentage opts\<rparr>
       fieldsToCompare"

section \<open>CucumberJsonValidator\<close>

text \<open>
  The validator keeps its findings in its own fields; each method takes that state and
  returns it updated. An entry of the error or warning list keeps its type, location and
  message (the context object and the timestamp are left out), and nothing of what the
  logger prints is modelled.
\<close>

record validator_options =
  generatePlaceholders :: bool
  maxErrors :: int

text \<open>The constructor with no options given.\<close>

definition default_validator_options :: validator_options where
  "default_validator_options = \<lparr>generatePlaceholders = True, maxErrors = 100\<rparr>"

record entry =
  entry_type :: string
  entry_location :: "string option"
  entry_message :: string

record validator_state =
  validationErrors :: "entry list"
  validationWarnings :: "entry list"
  processedEntries :: nat
  skippedEntries :: nat

definition reset :: validator_state where
  "reset = \<lparr>validationErrors = [], validationWarnings = [], processedEntries = 0,
            skippedEntries = 0\<rparr>"

definition addError ::
  "validator_options \<Rightarrow> string \<Rightarrow> string \<Rightarrow> validator_state \<Rightarrow> validator_state" where
  "addError opts location msg st =
     (if int (length (validationErrors st)) \<ge> maxErrors opts then st
      else st\<lparr>validationErrors := validationErrors st @
                [\<lparr>entry_type = ''error'', entry_location = Some location,
                  entry_message = msg\<rparr>]\<rparr>)"

definition addWarning :: "string \<Rightarrow> string \<Rightarrow> validator_state \<Rightarrow> validator_state" where
  "addWarning location msg st =
     st\<lparr>validationWarnings := validationWarnings st @
          [\<lparr>entry_type = ''warning'', entry_location = Some location, entry_message = msg\<rparr>]\<rparr>"

text \<open>The branch of \<open>sanitizeTestName\<close> for a name that is missing, not a string or blank.\<close>

definition missing_name ::
  "validator_options \<Rightarrow> string \<Rightarrow> string \<Rightarrow> validator_state \<Rightarrow> string \<times> validator_state" where
  "missing_name opts fallback type st =
     (if generatePlaceholders opts
      then
        let placeholder = fallback @ '' (auto-generated)'' in
        (placeholder,
         addWarning ''Name Sanitization''
           (''Empty '' @ type @ '' name replaced with placeholder: '' @ placeholder) st)
      else (fallback, addError opts ''Name Sanitization'' (type @ '' name is null or empty'') st))"

definition sanitizeTestName ::
  "validator_options \<Rightarrow> json option \<Rightarrow> string \<Rightarrow> string \<Rightarrow> validator_state
    \<Rightarrow> string \<times> validator_state" where
  "sanitizeTestName opts name fallback type st =
     (case name of
        Some (JStr s) \<Rightarrow>
          if s = [] \<or> trim s = [] then missing_name opts fallback type st else (trim s, st)
      | _ \<Rightarrow> missing_name opts fallback type st)"

text \<open>\<open>toLowerCase\<close> on one code unit below U+0100.\<close>

definition toLowerCase_char :: "char \<Rightarrow> char" where
  "toLowerCase_char c =
     (let n = (of_char c :: nat) in
      if (65 \<le> n \<and> n \<le> 90) \<or> (192 \<le> n \<and> n \<le> 222 \<and> n \<noteq> 215) then char_of (n + 32) else c)"

text \<open>\<open>replace(/[^a-z0-9]/g, '-')\<close> on one code unit.\<close>

definition replace_char :: "char \<Rightarrow> char" where
  "replace_char c =
     (let n = (of_char c :: nat) in
      if (97 \<le> n \<and> n \<le> 122) \<or> (48 \<le> n \<and> n \<le> 57) then c else CHR ''-'')"

text \<open>A name that is truthy and not a string has no \<open>toLowerCase\<close>: the call raises.\<close>

definition generateId :: "json option \<Rightarrow> nat \<Rightarrow> nat \<Rightarrow> js_error + string" where
  "generateId name featureIndex scenarioIndex =
     (case js_or name (JStr (''scenario-'' @ show_nat scenarioIndex)) of
        JStr baseName \<Rightarrow>
          Inr (''feature-'' @ show_nat featureIndex @ ''-''
               @ map replace_char (map toLowerCase_char baseName) @ ''-''
               @ show_nat scenarioIndex)
      | _ \<Rightarrow> Inl (TypeError ''baseName.toLowerCase is not a function''))"

definition default_result :: json where
  "default_result = JObj [(''status'', JStr ''unknown''), (''duration'', JNum 0)]"

definition sanitizeStep ::
  "validator_options \<Rightarrow> json \<Rightarrow> nat \<Rightarrow> nat \<Rightarrow> nat \<Rightarrow> validator_state
    \<Rightarrow> json option \<times> validator_state" where
  "sanitizeStep opts step featureIndex scenarioIndex stepIndex st =
     (let location = ''Feature '' @ show_nat featureIndex @ '', Scenario ''
                     @ show_nat scenarioIndex @ '', Step '' @ show_nat stepIndex in
      if \<not> truthy step \<or> \<not> is_object step
      then (None, addError opts location ''Step must be an object'' st)
      else
        case sanitizeTestName opts (jget step ''name'') (''Step '' @ show_nat stepIndex)
               ''step'' st of
          (name, st1) \<Rightarrow>
            let sanitizedStep =
                  AList.update ''keyword'' (js_or (jget step ''keyword'') (JStr ''Given ''))
                    (AList.update ''name'' (JStr name) (own_props step))
            in if if_truthy (jget step ''result'') = None \<and> if_truthy (jget step ''status'') = None
               then (Some (JObj (AList.update ''result'' default_result sanitizedStep)),
                     addWarning location ''Step missing result/status, defaulting to unknown'' st1)
               else (Some (JObj sanitizedStep), st1))"

definition sanitizeHook :: "json \<Rightarrow> string \<Rightarrow> json" where
  "sanitizeHook hook type =
     (if \<not> truthy hook \<or> \<not> is_object hook
      then JObj [(''result'', default_result),
                 (''match'', JObj [(''location'', JStr (''unknown '' @ type @ '' hook''))])]
      else JObj (AList.update ''match''
                   (js_or (jget hook ''match'') (JObj [(''location'', JStr (type @ '' hook''))]))
                   (AList.update ''result'' (js_or (jget hook ''result'') default_result)
                      (own_props hook))))"

text \<open>\<open>scenario.steps.map((step, stepIndex) => sanitizeStep(...))\<close>.\<close>

fun steps_map ::
  "validator_options \<Rightarrow> nat \<Rightarrow> nat \<Rightarrow> nat \<Rightarrow> json list \<Rightarrow> validator_state
    \<Rightarrow> json option list \<times> validator_state" where
  "steps_map opts featureIndex scenarioIndex stepIndex [] st = ([], st)"
| "steps_map opts featureIndex scenarioIndex stepIndex (step # steps) st =
     (case sanitizeStep opts step featureIndex scenarioIndex stepIndex st of
        (r, st1) \<Rightarrow>
          (case steps_map opts featureIndex scenarioIndex (Suc stepIndex) steps st1 of
             (rs, st2) \<Rightarrow> (r # rs, st2)))"

text \<open>\<open>.filter(step => step !== null)\<close>.\<close>

fun non_null :: "'a option list \<Rightarrow> 'a list" where
  "non_null [] = []"
| "non_null (None # rs) = non_null rs"
| "non_null (Some y # rs) = y # non_null rs"

text \<open>The steps of the sanitized scenario: mapped, then filtered.\<close>

definition sanitize_steps_field ::
  "validator_options \<Rightarrow> json \<Rightarrow> nat \<Rightarrow> nat \<Rightarrow> (string \<times> json) list \<Rightarrow> validator_state
    \<Rightarrow> (string \<times> json) list \<times> validator_state" where
  "sanitize_steps_field opts scenario featureIndex scenarioIndex props st =
     (case jget scenario ''steps'' of
        Some (JArr steps) \<Rightarrow>
          (case steps_map opts featureIndex scenarioIndex 0 steps st of
             (rs, st1) \<Rightarrow> (AList.update ''steps'' (JArr (non_null rs)) props, st1))
      | _ \<Rightarrow> (props, st))"

text \<open>The \<open>before\<close> or \<open>after\<close> hooks of the sanitized scenario.\<close>

definition sanitize_hooks_field ::
  "string \<Rightarrow> json \<Rightarrow> (string \<times> json) list \<Rightarrow> (string \<times> json) list" where
  "sanitize_hooks_field type scenario props =
     (case jget scenario type of
        Some (JArr hooks) \<Rightarrow>
          AList.update type (JArr (map (\<lambda>hook. sanitizeHook hook type) hooks)) props
      | _ \<Rightarrow> props)"

text \<open>
  \<open>sanitizeScenario\<close> raises when \<open>generateId\<close> does; the name has been sanitized by
  then, so its warning or error stays in the state.
\<close>

definition sanitizeScenario ::
  "validator_options \<Rightarrow> json \<Rightarrow> nat \<Rightarrow> nat \<Rightarrow> validator_state
    \<Rightarrow> (js_error + json option) \<times> validator_state" where
  "sanitizeScenario opts scenario featureIndex scenarioIndex st =
     (if \<not> truthy scenario \<or> \<not> is_object scenario
      then (Inr None,
            addError opts
              (''Feature '' @ show_nat featureIndex @ '', Scenario '' @ show_nat scenarioIndex)
              ''Scenario must be an object'' st)
      else
        case sanitizeTestName opts (jget scenario ''name'')
               (''Scenario '' @ show_nat scenarioIndex) ''scenario'' st of
          (name, st1) \<Rightarrow>
            (case (case if_truthy (jget scenario ''id'') of
                     Some v \<Rightarrow> Inr v
                   | None \<Rightarrow>
                       (case generateId (jget scenario ''name'') featureIndex scenarioIndex of
                          Inl e \<Rightarrow> Inl e
                        | Inr s \<Rightarrow> Inr (JStr s))) of
               Inl e \<Rightarrow> (Inl e, st1)
             | Inr ident \<Rightarrow>
                 (case sanitize_steps_field opts scenario featureIndex scenarioIndex
                         (AList.update ''type'' (js_or (jget scenario ''type'') (JStr ''scenario''))
                            (AList.update ''id'' ident
                               (AList.update ''name'' (JStr name) (own_props scenario))))
                         st1 of
                    (sanitized, st2) \<Rightarrow>
                      (Inr (Some (JObj (sanitize_hooks_field ''after'' scenario
                                          (sanitize_hooks_field ''before'' scenario sanitized)))),
                       st2))))"

text \<open>
  The \<open>forEach\<close> over the elements of a feature, with its \<open>try\<close>/\<open>catch\<close>: a
  scenario that is no object is counted as skipped, one whose sanitization raised is
  recorded as an error, and neither is part of the sanitized feature.
\<close>

fun elements_loop ::
  "validator_options \<Rightarrow> nat \<Rightarrow> nat \<Rightarrow> json list \<Rightarrow> validator_state
    \<Rightarrow> json list \<times> validator_state" where
  "elements_loop opts featureIndex elementIndex [] st = ([], st)"
| "elements_loop opts featureIndex elementIndex (element # elements) st =
     (case sanitizeScenario opts element featureIndex elementIndex st of
        (Inr (Some sanitizedElement), st1) \<Rightarrow>
          (case elements_loop opts featureIndex (Suc elementIndex) elements st1 of
             (rest, st2) \<Rightarrow> (sanitizedElement # rest, st2))
      | (Inr None, st1) \<Rightarrow>
          elements_loop opts featureIndex (Suc elementIndex) elements
            (st1\<lparr>skippedEntries := skippedEntries st1 + 1\<rparr>)
      | (Inl (TypeError msg), st1) \<Rightarrow>
          elements_loop opts featureIndex (Suc elementIndex) elements
            (addError opts
               (''Feature '' @ show_nat featureIndex @ '', Scenario '' @ show_nat elementIndex)
               msg st1))"

text \<open>
  \<open>sanitizeFeature\<close> itself cannot raise: its one call that can (\<open>generateId\<close>, inside
  \<open>sanitizeScenario\<close>) is caught by the handler of the loop over the elements.
\<close>

definition sanitizeFeature ::
  "validator_options \<Rightarrow> json \<Rightarrow> nat \<Rightarrow> validator_state \<Rightarrow> json option \<times> validator_state" where
  "sanitizeFeature opts feature featureIndex st =
     (if \<not> truthy feature \<or> \<not> is_object feature
      then (None, addError opts (''Feature '' @ show_nat featureIndex)
                    ''Feature must be an object'' st)
      else
        case sanitizeTestName opts (jget feature ''name'') (''Feature '' @ show_nat featureIndex)
               ''feature'' st of
          (name, st1) \<Rightarrow>
            let sanitizedFeature = AList.update ''name'' (JStr name) (own_props feature) in
            (case js_or (jget feature ''elements'')
                    (js_or (jget feature ''scenarios'') (JArr [])) of
               JArr elements \<Rightarrow>
                 (case elements_loop opts featureIndex 0 elements st1 of
                    (sanitizedElements, st2) \<Rightarrow>
                      (Some (JObj (AList.update ''elements'' (JArr sanitizedElements)
                                     sanitizedFeature)), st2))
             | _ \<Rightarrow> (Some (JObj (AList.update ''elements'' (JArr []) sanitizedFeature)), st1)))"

record skipped_entry =
  skipped_type :: string
  skipped_index :: nat
  skipped_reason :: string

text \<open>The \<open>forEach\<close> over the features: the sanitized features and the skipped entries.\<close>

fun features_loop ::
  "validator_options \<Rightarrow> nat \<Rightarrow> json list \<Rightarrow> validator_state
    \<Rightarrow> json list \<times> skipped_entry list \<times> validator_state" where
  "features_loop opts featureIndex [] st = ([], [], st)"
| "features_loop opts featureIndex (feature # features) st =
     (case sanitizeFeature opts feature featureIndex st of
        (Some sanitizedFeature, st1) \<Rightarrow>
          (case features_loop opts (Suc featureIndex) features
                  (st1\<lparr>processedEntries := processedEntries st1 + 1\<rparr>) of
             (rest, skips, st2) \<Rightarrow> (sanitizedFeature # rest, skips, st2))
      | (None, st1) \<Rightarrow>
          (case features_loop opts (Suc featureIndex) features
                  (st1\<lparr>skippedEntries := skippedEntries st1 + 1\<rparr>) of
             (rest, skips, st2) \<Rightarrow>
               (rest,
                \<lparr>skipped_type = ''feature'', skipped_index = featureIndex,
                 skipped_reason = ''Failed sanitization''\<rparr> # skips,
                st2)))"

text \<open>\<open>countOriginalEntries\<close>: reading \<open>elements\<close> of a null feature raises.\<close>

fun countOriginalEntries :: "json list \<Rightarrow> js_error + nat" where
  "countOriginalEntries [] = Inr 0"
| "countOriginalEntries (feature # features) =
     (if feature = JNull
      then Inl (TypeError ''Cannot read properties of null (reading 'elements')'')
      else case countOriginalEntries features of
        Inl e \<Rightarrow> Inl e
      | Inr n \<Rightarrow> Inr (1 + length (array_items (jget feature ''elements'')) + n))"

record validation_result =
  result_isValid :: bool
  result_errors :: "entry list"
  result_warnings :: "entry list"
  sanitizedData :: "json list option"
  originalEntryCount :: nat
  processedEntryCount :: nat
  result_skippedEntries :: "skipped_entry list"

text \<open>
  \<open>validateReport(json)\<close>, the \<open>sanitize\<close> of the specification; \<open>sanitizedData\<close> is
  its \<open>sanitizedReport\<close>, \<open>None\<close> for null. An exception in \<open>countOriginalEntries\<close>
  reaches the outer \<open>catch\<close>: the result is invalid, holds one critical error and no
  sanitized data.
\<close>

definition validateReport :: "validator_options \<Rightarrow> json \<Rightarrow> validation_result" where
  "validateReport opts json =
     (case json of
        JArr features \<Rightarrow>
          (let st = (if length features = 0 then addWarning ''Root'' ''Empty features array'' reset
                     else reset) in
           case countOriginalEntries features of
             Inl (TypeError msg) \<Rightarrow>
               \<lparr>result_isValid = False,
                result_errors = [\<lparr>entry_type = ''critical'', entry_location = None,
                                   entry_message = ''Critical validation error: '' @ msg\<rparr>],
                result_warnings = [], sanitizedData = None, originalEntryCount = 0,
                processedEntryCount = 0, result_skippedEntries = []\<rparr>
           | Inr n \<Rightarrow>
               (case features_loop opts 0 features st of
                  (sanitizedFeatures, skips, st1) \<Rightarrow>
                    \<lparr>result_isValid = (length (validationErrors st1) = 0),
                     result_errors = validationErrors st1,
                     result_warnings = validationWarnings st1,
                     sanitizedData = Some sanitizedFeatures, originalEntryCount = n,
                     processedEntryCount = processedEntries st1,
                     result_skippedEntries = skips\<rparr>))
      | _ \<Rightarrow>
          \<lparr>result_isValid = False,
           result_errors =
             validationErrors
               (addError opts ''Root'' ''Cucumber JSON must be an array of features'' reset),
           result_warnings = [], sanitizedData = None, originalEntryCount = 0,
           processedEntryCount = 0, result_skippedEntries = []\<rparr>)"

text \<open>The sanitized report as the value a second call is given.\<close>

definition report_value :: "json list option \<Rightarrow> json" where
  "report_value d = (case d of None \<Rightarrow> JNull | Some features \<Rightarrow> JArr features)"

section \<open>Sanitized values\<close>

text \<open>A string with no white space at either end.\<close>

definition trimmed :: "string \<Rightarrow> bool" where
  "trimmed s = (s = [] \<or> (\<not> is_space (hd s) \<and> \<not> is_space (last s)))"

text \<open>A name that \<open>sanitizeTestName\<close> keeps as it is: not empty, and trimmed.\<close>

definition good_name :: "string \<Rightarrow> bool" where
  "good_name n = (n \<noteq> [] \<and> trim n = n)"

text \<open>The fallbacks of the three callers: a word, a space and an index.\<close>

definition fallback_ok :: "string \<Rightarrow> bool" where
  "fallback_ok fb = (fb \<noteq> [] \<and> \<not> is_space (hd fb) \<and> \<not> is_space (last fb))"

text \<open>A plain object (not an array).\<close>

definition is_record :: "json \<Rightarrow> bool" where
  "is_record y = (\<exists>kvs. y = JObj kvs)"

text \<open>The value has a name that is kept as it is.\<close>

definition sanitized_name :: "json \<Rightarrow> bool" where
  "sanitized_name y = (\<exists>n. jget y ''name'' = Some (JStr n) \<and> good_name n)"

text \<open>What \<open>sanitizeStep\<close> establishes: a name, a keyword, and a result or a status.\<close>

definition sanitized_step :: "json \<Rightarrow> bool" where
  "sanitized_step y =
     (is_record y \<and> sanitized_name y \<and> if_truthy (jget y ''keyword'') \<noteq> None \<and>
      (if_truthy (jget y ''result'') \<noteq> None \<or> if_truthy (jget y ''status'') \<noteq> None))"

text \<open>What \<open>sanitizeHook\<close> establishes: a result and a match.\<close>

definition sanitized_hook :: "json \<Rightarrow> bool" where
  "sanitized_hook y =
     (is_record y \<and> if_truthy (jget y ''result'') \<noteq> None \<and> if_truthy (jget y ''match'') \<noteq> None)"

text \<open>Every element of a property that holds an array has the property \<open>P\<close>.\<close>

definition sanitized_items :: "(json \<Rightarrow> bool) \<Rightarrow> json option \<Rightarrow> bool" where
  "sanitized_items P x = (\<forall>y \<in> set (array_items x). P y)"

text \<open>What \<open>sanitizeScenario\<close> establishes.\<close>

definition sanitized_scenario :: "json \<Rightarrow> bool" where
  "sanitized_scenario y =
     (is_record y \<and> sanitized_name y \<and> if_truthy (jget y ''id'') \<noteq> None \<and>
      if_truthy (jget y ''type'') \<noteq> None \<and>
      sanitized_items sanitized_step (jget y ''steps'') \<and>
      sanitized_items sanitized_hook (jget y ''before'') \<and>
      sanitized_items sanitized_hook (jget y ''after''))"

text \<open>What \<open>sanitizeFeature\<close> establishes.\<close>

definition sanitized_feature :: "json \<Rightarrow> bool" where
  "sanitized_feature y =
     (is_record y \<and> sanitized_name y \<and>
      (\<exists>els. jget y ''elements'' = Some (JArr els) \<and> (\<forall>e \<in> set els. sanitized_scenario e)))"

text \<open>The step has a truthy \<open>result\<close> or a truthy \<open>status\<close>.\<close>

definition has_result_or_status :: "json \<Rightarrow> bool" where
  "has_result_or_status step =
     (if_truthy (jget step ''result'') \<noteq> None \<or> if_truthy (jget step ''status'') \<noteq> None)"

section \<open>Example inputs\<close>

text \<open>A scenario whose setup failed and whose one step passed.\<close>

definition scenario_setup_failed :: json where
  "scenario_setup_failed =
     JObj [(''before'', JArr [JObj [(''result'', JObj [(''status'', JStr ''failed'')])]]),
           (''steps'', JArr [JObj [(''result'', JObj [(''status'', JStr ''passed'')])]])]"

text \<open>A scenario with a passed step followed by a skipped one.\<close>

definition scenario_mixed :: json where
  "scenario_mixed =
     JObj [(''steps'', JArr [JObj [(''result'', JObj [(''status'', JStr ''passed'')])],
                             JObj [(''result'', JObj [(''status'', JStr ''skipped'')])]])]"

text \<open>A feature with a background and three scenarios.\<close>

definition feature_three :: json where
  "feature_three =
     JObj [(''elements'', JArr [JObj [(''type'', JStr ''background'')], scenario_setup_failed,
                                scenario_mixed, JObj []])]"

text \<open>
  A scenario whose name is an object with an own property \<open>toString\<close>: the conversion
  of the name to a string raises.
\<close>

definition scenario_bad_name :: json where
  "scenario_bad_name = JObj [(''name'', JObj [(''toString'', JNull)])]"

text \<open>A feature that holds a background only.\<close>

definition feature_backgrounds :: json where
  "feature_backgrounds = JObj [(''elements'', JArr [JObj [(''type'', JStr ''background'')]])]"






text \<open>
  Scenario 4 of the specification: a summary of 10 scenarios (7 passed, 2 failed,
  1 skipped) and a report of 11 scenarios (7 passed, 2 failed, 2 skipped), each with one step.
\<close>

definition scenario_with_step :: "string \<Rightarrow> json" where
  "scenario_with_step st =
     JObj [(''steps'', JArr [JObj [(''result'', JObj [(''status'', JStr st)])]])]"

definition c5_elements :: "json list" where
  "c5_elements =
    [scenario_with_step ''passed'', scenario_with_step ''passed'', scenario_with_step ''passed'',
     scenario_with_step ''passed'', scenario_with_step ''passed'', scenario_with_step ''passed'',
     scenario_with_step ''passed'', scenario_with_step ''failed'', scenario_with_step ''failed'',
     scenario_with_step ''skipped'', scenario_with_step ''skipped'']"

definition c5_report :: json where
  "c5_report = JArr [JObj [(''elements'', JArr c5_elements)]]"

definition c5_summary :: count_set where
  "c5_summary = [(''scenarios'', 10), (''passed'', 7), (''failed'', 2), (''skipped'', 1)]"

text \<open>Two step counts beyond the exact range: their product with 5 is above \<open>2^53\<close>.\<close>

definition counts_large_a :: count_set where
  "counts_large_a = [(''steps'', 9007199254740980)]"

definition counts_large_b :: count_set where
  "counts_large_b = [(''steps'', 8556839292003931)]"

text \<open>
  A report whose one step has a \<open>status\<close> and no \<open>result\<close>, and what the
  sanitizer makes of it.
\<close>

definition c9_report :: json where
  "c9_report =
     JArr [JObj [(''name'', JStr ''F''),
                 (''elements'', JArr [JObj [(''name'', JStr ''S''),
                    (''steps'', JArr [JObj [(''name'', JStr ''s''),
                                            (''status'', JStr ''passed'')]])]])]]"

definition c9_sanitized_step :: json where
  "c9_sanitized_step =
     JObj [(''name'', JStr ''s''), (''status'', JStr ''passed''), (''keyword'', JStr ''Given '')]"

definition c9_sanitized_scenario :: json where
  "c9_sanitized_scenario =
     JObj [(''name'', JStr ''S''), (''steps'', JArr [c9_sanitized_step]),
           (''id'', JStr ''feature-0-s-0''), (''type'', JStr ''scenario'')]"

definition c9_sanitized_feature :: json where
  "c9_sanitized_feature =
     JObj [(''name'', JStr ''F''), (''elements'', JArr [c9_sanitized_scenario])]"

section \<open>Reading properties\<close>

lemma jget_simps [simp]:
  "jget (JObj kvs) k = map_of kvs k"
  "jget JNull k = None"
  "jget (JBool b) k = None"
  "jget (JNum n) k = None"
  "jget (JStr s) k = None"
  by (simp_all add: jget_def)

lemma jget_Some_truthy: "jget v k = Some x \<Longrightarrow> truthy v"
  by (cases v) (auto simp: jget_def)

lemma jget_Some_object: "jget v k = Some x \<Longrightarrow> is_object v"
  by (cases v) (auto simp: jget_def)

lemma jget_not_object: "\<not> is_object v \<Longrightarrow> jget v k = None"
  by (cases v) (auto simp: jget_def)

section \<open>The status of a scenario\<close>

lemma getHookStatus_failed:
  assumes "jget h ''result'' = Some r" "jget r ''status'' = Some (JStr ''failed'')"
  shows "getHookStatus h = JStr ''failed''"
  using assms jget_Some_truthy[OF assms(1)] jget_Some_truthy[OF assms(2)]
  by (simp add: getHookStatus_def if_truthy_def js_or_def)

lemma getStepStatus_result:
  "getStepStatus (JObj [(''result'', JObj [(''status'', JStr s)])]) =
     (if s = [] then JStr ''unknown'' else JStr s)"
  by (simp add: getStepStatus_def if_truthy_def js_or_def)

lemma hooks_loop_failed:
  "\<exists>h \<in> set hooks. getHookStatus h = JStr ''failed'' \<Longrightarrow>
   hook_status (hooks_loop hooks r) = ''failed''"
  by (induction hooks arbitrary: r) (auto simp: Let_def)

lemma hooks_loop_not_failed:
  "\<forall>h \<in> set hooks. getHookStatus h \<noteq> JStr ''failed'' \<Longrightarrow> hook_status r \<noteq> ''failed'' \<Longrightarrow>
   hook_status (hooks_loop hooks r) \<noteq> ''failed''"
  by (induction hooks arbitrary: r) (auto simp: Let_def)

lemma setup_failed:
  assumes "jget scenario ''before'' = Some (JArr hooks)" "h \<in> set hooks"
    "jget h ''result'' = Some r" "jget r ''status'' = Some (JStr ''failed'')"
  shows "hook_status (analyzeSetupPhase scenario) = ''failed''"
  using assms getHookStatus_failed[OF assms(3,4)]
  by (auto simp: analyzeSetupPhase_def intro!: hooks_loop_failed)

lemma setup_not_failed:
  assumes "\<forall>h \<in> set (array_items (jget scenario ''before'')). getHookStatus h \<noteq> JStr ''failed''"
  shows "hook_status (analyzeSetupPhase scenario) \<noteq> ''failed''"
proof (cases "\<exists>hooks. jget scenario ''before'' = Some (JArr hooks)")
  case True
  then obtain hooks where h: "jget scenario ''before'' = Some (JArr hooks)" by blast
  with assms have "\<forall>h \<in> set hooks. getHookStatus h \<noteq> JStr ''failed''"
    by (simp add: array_items_def)
  then show ?thesis
    using h by (simp add: analyzeSetupPhase_def hooks_loop_not_failed)
next
  case False
  then show ?thesis
    by (auto simp: analyzeSetupPhase_def Let_def split: option.splits json.splits)
qed

lemma teardown_not_failed:
  assumes "\<forall>h \<in> set (array_items (jget scenario ''after'')). getHookStatus h \<noteq> JStr ''failed''"
  shows "hook_status (analyzeTeardownPhase scenario) \<noteq> ''failed''"
proof (cases "\<exists>hooks. jget scenario ''after'' = Some (JArr hooks)")
  case True
  then obtain hooks where h: "jget scenario ''after'' = Some (JArr hooks)" by blast
  with assms have "\<forall>h \<in> set hooks. getHookStatus h \<noteq> JStr ''failed''"
    by (simp add: array_items_def)
  then show ?thesis
    using h by (simp add: analyzeTeardownPhase_def hooks_loop_not_failed)
next
  case False
  then show ?thesis
    by (auto simp: analyzeTeardownPhase_def Let_def split: option.splits json.splits)
qed

lemma steps_loop_passed:
  "hasPassedSteps (steps_loop steps f) =
     (hasPassedSteps f \<or> (\<exists>s \<in> set steps. getStepStatus s = JStr ''passed''))"
  by (induction steps arbitrary: f) (auto simp: Let_def)

lemma steps_loop_failed:
  "hasFailedSteps (steps_loop steps f) =
     (hasFailedSteps f \<or> (\<exists>s \<in> set steps. getStepStatus s = JStr ''failed''))"
  by (induction steps arbitrary: f) (auto simp: Let_def)

lemma steps_loop_skipped:
  "hasSkippedSteps (steps_loop steps f) =
     (hasSkippedSteps f \<or> (\<exists>s \<in> set steps. getStepStatus s = JStr ''skipped''))"
  by (induction steps arbitrary: f) (auto simp: Let_def)

lemma exec_mixed:
  assumes "jget scenario ''steps'' = Some (JArr steps)"
    and "\<exists>s \<in> set steps. getStepStatus s = JStr ''passed''"
    and "\<exists>s \<in> set steps. getStepStatus s = JStr ''skipped''"
    and "\<forall>s \<in> set steps. getStepStatus s \<noteq> JStr ''failed''"
  shows "exec_status (analyzeExecutionPhase scenario) = ''mixed''"
  using assms
  by (simp add: analyzeExecutionPhase_def Let_def steps_loop_passed steps_loop_failed
      steps_loop_skipped)

text \<open>
  Claim C1. When setup failures count as failures (the default), a scenario with a
  \<open>before\<close> hook whose \<open>result.status\<close> is \<open>failed\<close> has status \<open>failed\<close>,
  and its reason starts with \<open>Setup failed: \<close>, whatever its steps and its other hooks
  are. The name of the scenario is one that the log line can print, as every string is.
\<close>

theorem setup_failure_precedence:
  assumes "treatSetupFailuresAsFailed opts"
    and "jget scenario ''before'' = Some (JArr hooks)" and "h \<in> set hooks"
    and "jget h ''result'' = Some r" and "jget r ''status'' = Some (JStr ''failed'')"
    and "\<not> toString_throws (js_or (jget scenario ''name'') (JStr ''unnamed''))"
  shows "status (calculateScenarioStatus opts scenario) = ''failed'' \<and>
         prefix ''Setup failed: '' (reason (calculateScenarioStatus opts scenario))"
  using assms(1,6) setup_failed[OF assms(2-5)] jget_Some_truthy[OF assms(2)]
  by (simp add: calculateScenarioStatus_def Let_def log_line_def determineOverallStatus_def)

theorem setup_failure_precedence_witness:
  "status (calculateScenarioStatus default_calc_options scenario_setup_failed) = ''failed'' \<and>
   prefix ''Setup failed: ''
     (reason (calculateScenarioStatus default_calc_options scenario_setup_failed))"
  using setup_failure_precedence [of default_calc_options scenario_setup_failed
      "[JObj [(''result'', JObj [(''status'', JStr ''failed'')])]]"
      "JObj [(''result'', JObj [(''status'', JStr ''failed'')])]"
      "JObj [(''status'', JStr ''failed'')]"]
  by (simp add: default_calc_options_def scenario_setup_failed_def js_or_def if_truthy_def)

text \<open>
  Claim C2. A scenario with no failed hook and no failed step, whose steps hold at least
  one passed and at least one skipped step, has status \<open>failed\<close> (so neither
  \<open>passed\<close> nor \<open>skipped\<close>), with the reason of the mixed-result rule.
\<close>

theorem mixed_steps_failed:
  assumes "jget scenario ''steps'' = Some (JArr steps)"
    and "\<exists>s \<in> set steps. getStepStatus s = JStr ''passed''"
    and "\<exists>s \<in> set steps. getStepStatus s = JStr ''skipped''"
    and "\<forall>s \<in> set steps. getStepStatus s \<noteq> JStr ''failed''"
    and "\<forall>h \<in> set (array_items (jget scenario ''before'')). getHookStatus h \<noteq> JStr ''failed''"
    and "\<forall>h \<in> set (array_items (jget scenario ''after'')). getHookStatus h \<noteq> JStr ''failed''"
    and "\<not> toString_throws (js_or (jget scenario ''name'') (JStr ''unnamed''))"
  shows "status (calculateScenarioStatus opts scenario) = ''failed'' \<and>
         reason (calculateScenarioStatus opts scenario) = ''Some steps failed or were skipped''"
  using exec_mixed[OF assms(1-4)] setup_not_failed[OF assms(5)] teardown_not_failed[OF assms(6)]
    assms(7) jget_Some_truthy[OF assms(1)]
  by (simp add: calculateScenarioStatus_def Let_def log_line_def determineOverallStatus_def)

theorem mixed_steps_failed_witness:
  "status (calculateScenarioStatus default_calc_options scenario_mixed) = ''failed'' \<and>
   reason (calculateScenarioStatus default_calc_options scenario_mixed)
     = ''Some steps failed or were skipped''"
  using mixed_steps_failed [of scenario_mixed
      "[JObj [(''result'', JObj [(''status'', JStr ''passed'')])],
        JObj [(''result'', JObj [(''status'', JStr ''skipped'')])]]" default_calc_options]
  by (simp add: scenario_mixed_def js_or_def if_truthy_def array_items_def getStepStatus_result)

text \<open>
  Claim C7, as amended. A scenario (a value that is not null or otherwise falsy) that has no
  steps and no \<open>before\<close> or \<open>after\<close> hooks, and whose name,
  \<open>scenario.name || 'unnamed'\<close>, converts to a string for the log line without raising
  (it is not an object with an own property \<open>toString\<close>, nor an array that holds
  one), has status \<open>skipped\<close>, with the reason \<open>No executable steps found\<close>; the
  claim said \<open>unknown\<close>.
\<close>

theorem no_steps_skipped:
  assumes "truthy scenario"
    and "array_items (jget scenario ''steps'') = []"
    and "array_items (jget scenario ''before'') = []"
    and "array_items (jget scenario ''after'') = []"
    and "\<not> toString_throws (js_or (jget scenario ''name'') (JStr ''unnamed''))"
  shows "status (calculateScenarioStatus opts scenario) = ''skipped'' \<and>
         reason (calculateScenarioStatus opts scenario) = ''No executable steps found''"
  using assms
  by (auto simp: calculateScenarioStatus_def Let_def log_line_def determineOverallStatus_def
      analyzeSetupPhase_def analyzeTeardownPhase_def analyzeExecutionPhase_def array_items_def
      split: option.splits json.splits)

theorem no_steps_skipped_witness:
  "status (calculateScenarioStatus default_calc_options (JObj [])) = ''skipped'' \<and>
   reason (calculateScenarioStatus default_calc_options (JObj [])) = ''No executable steps found''"
  using no_steps_skipped [of "JObj []" default_calc_options]
  by (simp add: js_or_def if_truthy_def array_items_def)

text \<open>The empty scenario object has no steps and no hooks, and its status is not \<open>unknown\<close>.\<close>

theorem no_steps_unknown_counterexample:
  "status (calculateScenarioStatus default_calc_options (JObj [])) \<noteq> ''unknown''"
  by (simp add: calculateScenarioStatus_def analyzeSetupPhase_def analyzeExecutionPhase_def
      analyzeTeardownPhase_def determineOverallStatus_def log_line_def js_or_def if_truthy_def
      default_calc_options_def)

lemma scenario_error_iff:
  "status (calculateScenarioStatus opts s) = ''error'' \<longleftrightarrow>
     truthy s \<and> toString_throws (js_or (jget s ''name'') (JStr ''unnamed''))"
  by (simp add: calculateScenarioStatus_def Let_def log_line_def determineOverallStatus_def)

lemma scenario_error_caught:
  assumes "truthy s" and "log_line s = Inl (TypeError m)"
  shows "status (calculateScenarioStatus opts s) = ''error''"
    and "reason (calculateScenarioStatus opts s) = ''Status calculation error: '' @ m"
  by (simp_all add: calculateScenarioStatus_def Let_def assms)

text \<open>
  Claim C8, as amended. No exception leaves \<open>calculateScenarioStatus\<close>: what is raised
  inside the calculation (only the conversion of the scenario's name to a string raises, with
  some message) is caught, and the result then has the status \<open>error\<close> and the reason
  \<open>Status calculation error: \<close> followed by that message. The status \<open>error\<close> is
  returned exactly in that case, and its reason always starts so. For an input that is not
  an object nothing is raised: the status is \<open>unknown\<close> with the reason
  \<open>Scenario is null or undefined\<close> when the input is null or otherwise falsy, and
  \<open>skipped\<close> with the reason \<open>No executable steps found\<close> when it is a truthy
  number, string or boolean; the claim said \<open>error\<close>.
\<close>

theorem malformed_scenario_status:
  "(\<not> is_object v \<longrightarrow>
      status (calculateScenarioStatus opts v) = (if truthy v then ''skipped'' else ''unknown'') \<and>
      reason (calculateScenarioStatus opts v) =
        (if truthy v then ''No executable steps found'' else ''Scenario is null or undefined'')) \<and>
   (status (calculateScenarioStatus opts s) = ''error'' \<longleftrightarrow>
      truthy s \<and> toString_throws (js_or (jget s ''name'') (JStr ''unnamed''))) \<and>
   (truthy s \<and> log_line s = Inl (TypeError msg) \<longrightarrow>
      status (calculateScenarioStatus opts s) = ''error'' \<and>
      reason (calculateScenarioStatus opts s) = ''Status calculation error: '' @ msg) \<and>
   (status (calculateScenarioStatus opts s) = ''error'' \<longrightarrow>
      (\<exists>m. log_line s = Inl (TypeError m) \<and>
           reason (calculateScenarioStatus opts s) = ''Status calculation error: '' @ m) \<and>
      prefix ''Status calculation error: '' (reason (calculateScenarioStatus opts s)))"
proof (intro conjI impI)
  assume a: "\<not> is_object v"
  show "status (calculateScenarioStatus opts v) = (if truthy v then ''skipped'' else ''unknown'')"
    by (simp add: calculateScenarioStatus_def Let_def log_line_def determineOverallStatus_def
      analyzeSetupPhase_def analyzeTeardownPhase_def analyzeExecutionPhase_def
      jget_not_object[OF a] js_or_def if_truthy_def)
  show "reason (calculateScenarioStatus opts v) =
        (if truthy v then ''No executable steps found'' else ''Scenario is null or undefined'')"
    by (simp add: calculateScenarioStatus_def Let_def log_line_def determineOverallStatus_def
      analyzeSetupPhase_def analyzeTeardownPhase_def analyzeExecutionPhase_def
      jget_not_object[OF a] js_or_def if_truthy_def)
next
  show "status (calculateScenarioStatus opts s) = ''error'' \<longleftrightarrow>
      truthy s \<and> toString_throws (js_or (jget s ''name'') (JStr ''unnamed''))"
    by (rule scenario_error_iff)
next
  assume "truthy s \<and> log_line s = Inl (TypeError msg)"
  then have t: "truthy s" and l: "log_line s = Inl (TypeError msg)"
    by simp_all
  show "status (calculateScenarioStatus opts s) = ''error''"
    by (rule scenario_error_caught(1) [OF t l])
  show "reason (calculateScenarioStatus opts s) = ''Status calculation error: '' @ msg"
    by (rule scenario_error_caught(2) [OF t l])
next
  assume e: "status (calculateScenarioStatus opts s) = ''error''"
  then have t: "truthy s"
    and "toString_throws (js_or (jget s ''name'') (JStr ''unnamed''))"
    by (simp_all add: scenario_error_iff)
  then have l: "log_line s = Inl (TypeError ''Cannot convert object to primitive value'')"
    by (simp add: log_line_def)
  note r = scenario_error_caught(2) [OF t l, of opts]
  from l r
  show "\<exists>m. log_line s = Inl (TypeError m) \<and>
           reason (calculateScenarioStatus opts s) = ''Status calculation error: '' @ m"
    by blast
  from r
  show "prefix ''Status calculation error: '' (reason (calculateScenarioStatus opts s))"
    by (rule prefixI)
qed

theorem malformed_scenario_status_witness:
  "status (calculateScenarioStatus default_calc_options (JNum 5)) = ''skipped'' \<and>
   reason (calculateScenarioStatus default_calc_options (JNum 5)) = ''No executable steps found'' \<and>
   status (calculateScenarioStatus default_calc_options scenario_bad_name) = ''error'' \<and>
   reason (calculateScenarioStatus default_calc_options scenario_bad_name) =
     ''Status calculation error: Cannot convert object to primitive value'' \<and>
   prefix ''Status calculation error: ''
     (reason (calculateScenarioStatus default_calc_options scenario_bad_name))"
proof -
  have l: "truthy scenario_bad_name \<and>
      log_line scenario_bad_name = Inl (TypeError ''Cannot convert object to primitive value'')"
    by (simp add: scenario_bad_name_def log_line_def js_or_def if_truthy_def)
  have n: "\<not> is_object (JNum 5)" "truthy (JNum 5)" by simp_all
  note th = malformed_scenario_status [of "JNum 5" default_calc_options scenario_bad_name
      "''Cannot convert object to primitive value''"]
  from th n have a: "status (calculateScenarioStatus default_calc_options (JNum 5)) = ''skipped''"
    "reason (calculateScenarioStatus default_calc_options (JNum 5)) = ''No executable steps found''"
    by simp_all
  from th l have b: "status (calculateScenarioStatus default_calc_options scenario_bad_name) = ''error''"
    "reason (calculateScenarioStatus default_calc_options scenario_bad_name) =
       ''Status calculation error: '' @ ''Cannot convert object to primitive value''"
    by blast+
  from th b(1) have c: "prefix ''Status calculation error: ''
      (reason (calculateScenarioStatus default_calc_options scenario_bad_name))"
    by blast
  from a b c show ?thesis by simp
qed

text \<open>The input null is not an object, and its status is \<open>unknown\<close>, not \<open>error\<close>.\<close>

theorem malformed_scenario_error_counterexample:
  "status (calculateScenarioStatus default_calc_options JNull) = ''unknown'' \<and>
   status (calculateScenarioStatus default_calc_options JNull) \<noteq> ''error''"
  by (simp add: calculateScenarioStatus_def)

section \<open>The status of a feature\<close>

lemma filter_scenarios_ok:
  "JNull \<notin> set els \<Longrightarrow>
   filter_scenarios els = Inr (filter (\<lambda>el. jget el ''type'' \<noteq> Some (JStr ''background'')) els)"
  by (induction els) auto

lemma tally_sum:
  "passed (tally opts xs c) + failed (tally opts xs c) + skipped (tally opts xs c)
     + errors (tally opts xs c) = passed c + failed c + skipped c + errors c + length xs"
  by (induction xs arbitrary: c) (auto simp: Let_def)

text \<open>
  Claim C3. For a feature whose elements are scenarios (none of them null) and hold at least
  one that is not a background, \<open>calculateFeatureStatus\<close> returns counts with
  \<open>passed + failed + skipped + errors = total\<close>, and \<open>total\<close> is the number of elements
  that are not backgrounds.
\<close>

theorem feature_counts_conserved:
  assumes "jget feature ''elements'' = Some (JArr els)" and "JNull \<notin> set els"
    and "\<exists>el \<in> set els. jget el ''type'' \<noteq> Some (JStr ''background'')"
  shows "\<exists>r c. calculateFeatureStatus opts feature = Inr r \<and> feature_counts r = Some c \<and>
           passed c + failed c + skipped c + errors c = total c \<and>
           total c = length (filter (\<lambda>el. jget el ''type'' \<noteq> Some (JStr ''background'')) els)"
proof -
  let ?sc = "filter (\<lambda>el. jget el ''type'' \<noteq> Some (JStr ''background'')) els"
  have ne: "?sc \<noteq> []" using assms(3) by (auto simp: filter_empty_conv)
  show ?thesis
    using ne assms(1) jget_Some_truthy[OF assms(1)] filter_scenarios_ok[OF assms(2)]
    by (simp add: calculateFeatureStatus_def if_truthy_def Let_def tally_sum)
qed

theorem feature_counts_conserved_witness:
  "\<exists>r c. calculateFeatureStatus default_calc_options feature_three = Inr r \<and>
     feature_counts r = Some c \<and>
     passed c + failed c + skipped c + errors c = total c \<and> total c = 3"
proof -
  let ?els = "[JObj [(''type'', JStr ''background'')], scenario_setup_failed, scenario_mixed,
               JObj []]"
  have a: "jget feature_three ''elements'' = Some (JArr ?els)"
    by (simp add: feature_three_def)
  have b: "JNull \<notin> set ?els"
    by (simp add: scenario_setup_failed_def scenario_mixed_def)
  have c: "\<exists>el \<in> set ?els. jget el ''type'' \<noteq> Some (JStr ''background'')"
    by simp
  have d: "length (filter (\<lambda>el. jget el ''type'' \<noteq> Some (JStr ''background'')) ?els) = 3"
    by (simp add: scenario_setup_failed_def scenario_mixed_def)
  from feature_counts_conserved [OF a b c, of default_calc_options] show ?thesis
    unfolding d by blast
qed

text \<open>
  Claim C10. A feature with no \<open>elements\<close> (the property is absent, null or otherwise
  falsy), or whose elements are all of type \<open>background\<close>, gets the status \<open>unknown\<close>
  with a reason and with no counts.
\<close>

theorem feature_without_scenarios:
  assumes "if_truthy (jget feature ''elements'') = None \<or>
           (\<exists>els. jget feature ''elements'' = Some (JArr els) \<and>
              (\<forall>el \<in> set els. jget el ''type'' = Some (JStr ''background'')))"
  shows "\<exists>r. calculateFeatureStatus opts feature = Inr r \<and> feature_status r = ''unknown'' \<and>
           feature_counts r = None \<and>
           feature_reason r \<in> {''Feature has no scenarios'', ''No executable scenarios found''}"
  using assms
proof
  assume "if_truthy (jget feature ''elements'') = None"
  then show ?thesis by (simp add: calculateFeatureStatus_def)
next
  assume "\<exists>els. jget feature ''elements'' = Some (JArr els) \<and>
              (\<forall>el \<in> set els. jget el ''type'' = Some (JStr ''background''))"
  then obtain els where e: "jget feature ''elements'' = Some (JArr els)"
    and bg: "\<forall>el \<in> set els. jget el ''type'' = Some (JStr ''background'')" by blast
  have nn: "JNull \<notin> set els" using bg by auto
  have "filter (\<lambda>el. jget el ''type'' \<noteq> Some (JStr ''background'')) els = []"
    using bg by (auto simp: filter_empty_conv)
  then show ?thesis
    using e jget_Some_truthy[OF e] filter_scenarios_ok[OF nn]
    by (simp add: calculateFeatureStatus_def if_truthy_def)
qed

theorem feature_without_scenarios_witness:
  "\<exists>r. calculateFeatureStatus default_calc_options feature_backgrounds = Inr r \<and>
     feature_status r = ''unknown'' \<and> feature_counts r = None"
proof -
  have "\<exists>els. jget feature_backgrounds ''elements'' = Some (JArr els) \<and>
          (\<forall>el \<in> set els. jget el ''type'' = Some (JStr ''background''))"
    by (simp add: feature_backgrounds_def)
  then have "if_truthy (jget feature_backgrounds ''elements'') = None \<or>
        (\<exists>els. jget feature_backgrounds ''elements'' = Some (JArr els) \<and>
          (\<forall>el \<in> set els. jget el ''type'' = Some (JStr ''background'')))"
    by (rule disjI2)
  from feature_without_scenarios [OF this, of default_calc_options] show ?thesis
    by blast
qed

section \<open>Binary64 rounding\<close>

lemma round_even_close: "\<bar>of_int (round_even x) - x\<bar> \<le> 1 / 2"
proof -
  define f where "f = \<lfloor>x\<rfloor>"
  have a: "of_int f \<le> x" and b: "x < of_int f + 1"
    unfolding f_def by linarith+
  consider "x - of_int f < 1 / 2" | "x - of_int f > 1 / 2" | "x - of_int f = 1 / 2"
    by linarith
  then show ?thesis
  proof cases
    case 1
    then have "round_even x = f" by (simp add: round_even_def f_def)
    then show ?thesis using a 1 by simp
  next
    case 2
    then have "round_even x = f + 1" by (simp add: round_even_def f_def)
    then show ?thesis using b 2 by simp
  next
    case 3
    then have "round_even x = f \<or> round_even x = f + 1"
      by (simp add: round_even_def f_def Let_def)
    then show ?thesis using 3 by auto
  qed
qed

lemma round_even_of_int [simp]: "round_even (of_int k) = k"
  by (simp add: round_even_def)

text \<open>The exponent that \<open>binade\<close> finds is the right one.\<close>

lemma binade_bounds:
  assumes "x \<noteq> 0"
  shows "2 powi (binade x) \<le> \<bar>x\<bar>" and "\<bar>x\<bar> < 2 powi (binade x + 1)"
proof -
  obtain p q where pq: "quotient_of \<bar>x\<bar> = (p, q)"
    by (cases "quotient_of \<bar>x\<bar>")
  have q: "q > 0" using pq by (rule quotient_of_denom_pos)
  have x: "\<bar>x\<bar> = of_int p / of_int q" using pq by (rule quotient_of_div)
  have "\<bar>x\<bar> > 0" using assms by simp
  then have p: "p > 0" using q unfolding x by (simp add: zero_less_divide_iff)
  let ?d = "bitlen p - bitlen q"
  have bp: "bitlen p \<ge> 1" and bq: "bitlen q \<ge> 1"
    using p q by (auto simp: bitlen_alt_def)
  from bitlen_bounds [OF p] have p1: "(2::rat) ^ nat (bitlen p - 1) \<le> of_int p"
    and p2: "of_int p < (2::rat) ^ nat (bitlen p)"
    by (metis of_int_le_iff of_int_numeral of_int_power,
        metis of_int_less_iff of_int_numeral of_int_power)
  from bitlen_bounds [OF q] have q1: "(2::rat) ^ nat (bitlen q - 1) \<le> of_int q"
    and q2: "of_int q < (2::rat) ^ nat (bitlen q)"
    by (metis of_int_le_iff of_int_numeral of_int_power,
        metis of_int_less_iff of_int_numeral of_int_power)
  have pw: "(2::rat) ^ nat k = 2 powi k" if "k \<ge> 0" for k
    using that by (simp add: power_int_def)
  have upper: "\<bar>x\<bar> < 2 powi (?d + 1)"
  proof -
    have "of_int p / of_int q < (2::rat) ^ nat (bitlen p) / 2 ^ nat (bitlen q - 1)"
      using p1 p2 q1 q2 p q by (intro frac_less) auto
    also have "\<dots> = 2 powi (bitlen p) / 2 powi (bitlen q - 1)"
      using bp bq by (simp add: pw)
    also have "\<dots> = 2 powi (bitlen p - (bitlen q - 1))"
      by (simp add: power_int_diff)
    finally show ?thesis by (simp add: x algebra_simps)
  qed
  have lower: "2 powi (?d - 1) < \<bar>x\<bar>"
  proof -
    have "(2::rat) ^ nat (bitlen p - 1) / 2 ^ nat (bitlen q) < of_int p / of_int q"
      using p1 p2 q1 q2 p q by (intro frac_less2) auto
    moreover have "(2::rat) ^ nat (bitlen p - 1) / 2 ^ nat (bitlen q) =
        2 powi (bitlen p - 1) / 2 powi (bitlen q)"
      using bp bq by (simp add: pw)
    moreover have "\<dots> = 2 powi (bitlen p - 1 - bitlen q)"
      by (simp add: power_int_diff)
    ultimately show ?thesis by (simp add: x algebra_simps)
  qed
  have b: "binade x = (if 2 powi ?d \<le> \<bar>x\<bar> then ?d else ?d - 1)"
    by (simp add: binade_def pq)
  show "2 powi (binade x) \<le> \<bar>x\<bar>" using lower by (simp add: b)
  show "\<bar>x\<bar> < 2 powi (binade x + 1)" using upper by (auto simp: b)
qed

text \<open>The relative error of a rounding is at most \<open>2^-53\<close>.\<close>

lemma round_double_error: "\<bar>round_double x - x\<bar> \<le> \<bar>x\<bar> / 2 ^ 53"
proof (cases "x = 0")
  case True
  then show ?thesis by (simp add: round_double_def)
next
  case False
  let ?u = "(2::rat) powi (binade x - 52)"
  have u: "?u > 0" by (simp add: zero_less_power_int)
  have "round_double x - x = (of_int (round_even (x / ?u)) - x / ?u) * ?u"
    using False u by (simp add: round_double_def Let_def left_diff_distrib)
  then have "\<bar>round_double x - x\<bar> = \<bar>of_int (round_even (x / ?u)) - x / ?u\<bar> * \<bar>?u\<bar>"
    by (simp only: abs_mult)
  also have "\<dots> = \<bar>of_int (round_even (x / ?u)) - x / ?u\<bar> * ?u"
    using u by simp
  also have "\<dots> \<le> (1 / 2) * ?u"
    using u round_even_close [of "x / ?u"] by (intro mult_right_mono) auto
  also have "\<dots> = 2 powi (binade x) / 2 ^ 53"
    by (simp add: power_int_diff)
  also have "\<dots> \<le> \<bar>x\<bar> / 2 ^ 53"
    using binade_bounds(1) [OF False] by (simp add: divide_right_mono)
  finally show ?thesis .
qed

text \<open>An integer below \<open>2^53\<close> in absolute value is a binary64 value.\<close>

lemma round_double_of_int:
  assumes "\<bar>n\<bar> < 2 ^ 53"
  shows "round_double (of_int n) = of_int n"
proof (cases "n = 0")
  case True
  then show ?thesis by (simp add: round_double_def)
next
  case False
  let ?x = "of_int n :: rat"
  have nz: "?x \<noteq> 0" using False by simp
  from binade_bounds(1) [OF nz] have "(2::rat) powi (binade ?x) \<le> \<bar>?x\<bar>" .
  also have "\<bar>?x\<bar> < 2 powi 53"
  proof -
    have "(of_int \<bar>n\<bar> :: rat) < of_int (2 ^ 53)"
      using assms by (simp only: of_int_less_iff)
    then show ?thesis by simp
  qed
  finally have "(2::rat) powi (binade ?x) < 2 powi 53" .
  then have "binade ?x < 53"
    by (rule power_int_le_imp_less_exp [rotated]) simp_all
  then have e: "52 - binade ?x \<ge> 0" by simp
  have u: "(2::rat) powi (binade ?x - 52) = 1 / of_int (2 ^ nat (52 - binade ?x))"
    using e by (simp add: power_int_def field_simps)
  have "?x / 2 powi (binade ?x - 52) = of_int (n * 2 ^ nat (52 - binade ?x))"
    by (simp add: u)
  then have "round_even (?x / 2 powi (binade ?x - 52)) = n * 2 ^ nat (52 - binade ?x)"
    by (simp only: round_even_of_int)
  then show ?thesis using nz by (simp add: round_double_def Let_def u)
qed

text \<open>
  The hundredth of such an integer, rounded, has the floor of the exact quotient: the
  quotient is an integer, or at least a hundredth away from one, further than the rounding
  error.
\<close>

lemma floor_round_double_div_100:
  assumes "\<bar>n\<bar> < 2 ^ 53"
  shows "\<lfloor>round_double (of_int n / 100)\<rfloor> = n div 100"
proof (cases "100 dvd n")
  case True
  then obtain k where k: "n = 100 * k" by (auto simp: dvd_def)
  have "\<bar>k\<bar> < 2 ^ 53" using assms unfolding k by (simp add: abs_mult)
  then have "round_double (of_int k) = of_int k" by (rule round_double_of_int)
  then show ?thesis by (simp add: k)
next
  case False
  let ?x = "of_int n / 100 :: rat"
  let ?k = "n div 100"
  have r: "1 \<le> n mod 100" "n mod 100 \<le> 99" using False by presburger+
  have "n = 100 * ?k + n mod 100" by simp
  then have "(of_int n :: rat) = of_int (100 * ?k + n mod 100)" by (rule arg_cong)
  then have n: "(of_int n :: rat) = 100 * of_int ?k + of_int (n mod 100)"
    by (simp only: of_int_add of_int_mult of_int_numeral)
  have x: "?x = of_int ?k + of_int (n mod 100) / 100"
    unfolding n by (simp add: field_simps)
  have lo: "of_int ?k + 1 / 100 \<le> ?x" and hi: "?x \<le> of_int ?k + 99 / 100"
    using r unfolding x by (simp_all add: divide_right_mono)
  have "\<bar>?x\<bar> < 2 ^ 53 / 100"
  proof -
    have "(of_int \<bar>n\<bar> :: rat) < of_int (2 ^ 53)"
      using assms by (simp only: of_int_less_iff)
    then show ?thesis by simp
  qed
  then have "\<bar>?x\<bar> / 2 ^ 53 < 1 / 100" by (simp add: field_simps)
  with round_double_error [of ?x] have e: "\<bar>round_double ?x - ?x\<bar> < 1 / 100" by linarith
  have "of_int ?k \<le> round_double ?x" "round_double ?x < of_int ?k + 1"
    using e lo hi by linarith+
  then show ?thesis by (simp add: floor_unique)
qed

text \<open>
  Sums and differences of integers are exact below \<open>2^53\<close>, and so is the floor of a
  percentage when the percentage is a whole number and the product is below \<open>2^53\<close>.
\<close>

lemma js_plus_exact: "\<bar>a + b\<bar> < 2 ^ 53 \<Longrightarrow> js_plus a b = a + b"
  using round_double_of_int [of "a + b"] by (simp add: js_plus_def)

lemma js_minus_exact: "\<bar>a - b\<bar> < 2 ^ 53 \<Longrightarrow> js_minus a b = a - b"
  using round_double_of_int [of "a - b"] by (simp add: js_minus_def)

lemma js_floor_percent_exact:
  assumes "t = of_int \<lfloor>t\<rfloor>" and "\<bar>of_int x * t\<bar> < 2 ^ 53"
  shows "js_floor_percent x t = \<lfloor>of_int x * t / 100\<rfloor>"
proof -
  define k where "k = \<lfloor>t\<rfloor>"
  have t: "t = of_int k" using assms(1) by (simp add: k_def)
  have "\<bar>(of_int (x * k) :: rat)\<bar> < of_int (2 ^ 53)"
    using assms(2) by (simp add: t)
  then have "(of_int \<bar>x * k\<bar> :: rat) < of_int (2 ^ 53)" by simp
  then have b: "\<bar>x * k\<bar> < 2 ^ 53" by (simp only: of_int_less_iff)
  have "js_floor_percent x t = \<lfloor>round_double (round_double (of_int (x * k)) / 100)\<rfloor>"
    by (simp add: js_floor_percent_def t)
  also have "\<dots> = \<lfloor>round_double (of_int (x * k) / 100)\<rfloor>"
    by (simp only: round_double_of_int [OF b])
  also have "\<dots> = x * k div 100"
    by (rule floor_round_double_div_100 [OF b])
  also have "\<dots> = \<lfloor>(of_int (x * k) :: rat) / of_int 100\<rfloor>"
    by (simp only: floor_divide_of_int_eq)
  finally show ?thesis by (simp add: t)
qed

section \<open>The comparison of two count sets\<close>








text \<open>
  Beyond that range the product is rounded before it is divided. With 9007199254740980
  and 8556839292003931 steps and 5 percent the product 45035996273704900 is above
  \<open>2^53\<close> and rounds to 45035996273704896, so the tolerance is 450359962737048, one
  less than the difference of the two counts, and the field is flagged.
\<close>

lemma large_counts_tolerance:
  "js_floor_percent 9007199254740980 5 = 450359962737048 \<and>
   \<lfloor>(of_int 9007199254740980 :: rat) * 5 / 100\<rfloor> = 450359962737049 \<and>
   js_minus 9007199254740980 8556839292003931 = 450359962737049"
  by code_simp

lemma large_counts_flagged:
  "comparison_discrepancies
     (compareCountSets (integrity_options None) counts_large_a counts_large_b ''direct_vs_parsed'') =
     [\<lparr>field = ''steps'', value1 = 9007199254740980, value2 = 8556839292003931,
       difference = - 450359962737049, tolerance = 450359962737048\<rparr>]"
  by code_simp

section \<open>The validation of a summary against a report\<close>

lemma some_status_one:
  "some_status w [JObj [(''result'', JObj [(''status'', JStr st)])]] = Inr (st = w)"
  by (simp add: if_truthy_def)

lemma summary_scenario_step:
  "summary_scenario (scenario_with_step st) cs =
     Inr (add_count
            (if st = ''failed'' then ''failed'' else if st = ''passed'' then ''passed''
             else ''skipped'') 1
            (add_count ''steps'' 1 (add_count ''scenarios'' 1 cs)))"
  unfolding summary_scenario_def scenario_with_step_def
  by (simp add: some_status_one del: some_status.simps)

lemma c5_elements_summary:
  "summary_elements c5_elements
     [(''features'', 1), (''scenarios'', 0), (''steps'', 0), (''passed'', 0), (''failed'', 0),
      (''skipped'', 0), (''errors'', 0)] =
   Inr [(''features'', 1), (''scenarios'', 11), (''steps'', 11), (''passed'', 7),
        (''failed'', 2), (''skipped'', 2), (''errors'', 0)]"
  by (simp add: c5_elements_def summary_scenario_step add_count_def count_or_zero_def)

lemma c5_report_summary:
  "calculateSummaryFromRawData c5_report =
     Inr [(''features'', 1), (''scenarios'', 11), (''steps'', 11), (''passed'', 7),
          (''failed'', 2), (''skipped'', 2), (''errors'', 0)]"
proof -
  have "summary_feature (JObj [(''elements'', JArr c5_elements)])
          [(''features'', 0), (''scenarios'', 0), (''steps'', 0), (''passed'', 0),
           (''failed'', 0), (''skipped'', 0), (''errors'', 0)] =
        Inr [(''features'', 1), (''scenarios'', 11), (''steps'', 11), (''passed'', 7),
             (''failed'', 2), (''skipped'', 2), (''errors'', 0)]"
    by (simp add: summary_feature_def js_or_def if_truthy_def add_count_def count_or_zero_def
        c5_elements_summary)
  then show ?thesis
    by (simp add: calculateSummaryFromRawData_def c5_report_def)
qed

text \<open>
  The validation of the summary of scenario 4 against any report whose computed counts are
  11 scenarios, 7 passed, 2 failed and 2 skipped: nothing is flagged.
\<close>

lemma validate_c5_summary:
  assumes "calculateSummaryFromRawData (JArr features) = Inr cs"
    and "count_or_zero cs ''scenarios'' = 11" and "count_or_zero cs ''passed'' = 7"
    and "count_or_zero cs ''failed'' = 2" and "count_or_zero cs ''skipped'' = 2"
  shows "validateTestCounts (integrity_options None) c5_summary (JArr features) =
           \<lparr>isValid = True, issues = [],
            summary = [(''totalTests'', 10), (''passed'', 7), (''failed'', 2), (''skipped'', 1),
                       (''errors'', 0)],
            calculatedSummary = Some cs, discrepancies = []\<rparr>"
proof -
  let ?v = "\<lparr>isValid = True, issues = [],
             summary = [(''totalTests'', 10), (''passed'', 7), (''failed'', 2), (''skipped'', 1),
                        (''errors'', 0)],
             calculatedSummary = Some cs, discrepancies = []\<rparr>"
  have fold: "foldl (check_field (integrity_options None)) ?v
                [''scenarios'', ''passed'', ''failed'', ''skipped''] = ?v"
    using assms(2-5)
    by (simp add: check_field_def integrity_options_def count_or_zero_def Let_def
        js_minus_exact js_floor_percent_exact)
  show ?thesis
    unfolding validateTestCounts_def Let_def
    using fold by (simp add: c5_summary_def count_or_zero_def assms(1) js_plus_exact)
qed

text \<open>
  Claim C5, as amended. \<open>validateTestCounts\<close> with the summary
  \<open>{scenarios: 10, passed: 7, failed: 2, skipped: 1}\<close> and a report whose computed counts
  are 7 passed, 2 failed and 2 skipped of 11 scenarios flags no discrepancy and returns
  \<open>isValid = true\<close>: the summary is consistent in itself (7 + 2 + 1 + 0 = 10), and each
  field is within the tolerance of 1 of the computed count. The claim said a
  \<open>count_mismatch\<close> and \<open>isValid = false\<close>.
\<close>

theorem scenario4_no_discrepancy:
  assumes "calculateSummaryFromRawData (JArr features) = Inr cs"
    and "count_or_zero cs ''scenarios'' = 11" and "count_or_zero cs ''passed'' = 7"
    and "count_or_zero cs ''failed'' = 2" and "count_or_zero cs ''skipped'' = 2"
  shows "isValid (validateTestCounts (integrity_options None) c5_summary (JArr features)) \<and>
         discrepancies (validateTestCounts (integrity_options None) c5_summary (JArr features)) = []"
  by (simp add: validate_c5_summary [OF assms])

theorem scenario4_no_discrepancy_witness:
  "isValid (validateTestCounts (integrity_options None) c5_summary c5_report) \<and>
   discrepancies (validateTestCounts (integrity_options None) c5_summary c5_report) = []"
  using scenario4_no_discrepancy [of "[JObj [(''elements'', JArr c5_elements)]]"
      "[(''features'', 1), (''scenarios'', 11), (''steps'', 11), (''passed'', 7),
        (''failed'', 2), (''skipped'', 2), (''errors'', 0)]"] c5_report_summary
  by (simp add: c5_report_def count_or_zero_def)

text \<open>On the report of scenario 4 the result is valid and holds no \<open>count_mismatch\<close>.\<close>

theorem scenario4_count_mismatch_counterexample:
  "\<not> (isValid (validateTestCounts (integrity_options None) c5_summary c5_report) = False) \<and>
   map disc_type (discrepancies (validateTestCounts (integrity_options None) c5_summary c5_report))
     = []"
proof -
  have "validateTestCounts (integrity_options None) c5_summary c5_report =
           \<lparr>isValid = True, issues = [],
            summary = [(''totalTests'', 10), (''passed'', 7), (''failed'', 2), (''skipped'', 1),
                       (''errors'', 0)],
            calculatedSummary = Some [(''features'', 1), (''scenarios'', 11), (''steps'', 11),
                                      (''passed'', 7), (''failed'', 2), (''skipped'', 2),
                                      (''errors'', 0)],
            discrepancies = []\<rparr>"
    unfolding c5_report_def
    by (rule validate_c5_summary)
       (simp_all add: c5_report_summary [unfolded c5_report_def] count_or_zero_def)
  then show ?thesis by simp
qed

section \<open>The sanitizer\<close>

lemma dropWhile_id_hd: "xs \<noteq> [] \<Longrightarrow> \<not> P (hd xs) \<Longrightarrow> dropWhile P xs = xs"
  by (cases xs) auto

lemma trimmed_trim_id: "trimmed s \<Longrightarrow> trim s = s"
proof (cases "s = []")
  case True
  then show ?thesis by (simp add: trim_def)
next
  case False
  assume "trimmed s"
  with False have h: "\<not> is_space (hd s)" and l: "\<not> is_space (last s)"
    by (auto simp: trimmed_def)
  have 1: "dropWhile is_space s = s" using False h by (rule dropWhile_id_hd)
  have "hd (rev s) = last s" using False by (simp add: hd_rev)
  then have 2: "dropWhile is_space (rev s) = rev s"
    using False l by (intro dropWhile_id_hd) auto
  show ?thesis by (simp add: trim_def 1 2)
qed

lemma trimmed_trim: "trimmed (trim s)"
proof (cases "trim s = []")
  case True
  then show ?thesis by (simp add: trimmed_def)
next
  case False
  let ?t = "dropWhile is_space s"
  let ?u = "dropWhile is_space (rev ?t)"
  have u: "?u \<noteq> []" using False by (simp add: trim_def)
  have tr: "trim s = rev ?u" by (simp add: trim_def)
  have l: "\<not> is_space (hd ?u)" using u by (rule hd_dropWhile)
  have last_eq: "last (trim s) = hd ?u" using u by (simp add: tr last_rev)
  have "?t \<noteq> []"
  proof
    assume e: "?t = []"
    have "?u = []" unfolding e by simp
    with u show False by contradiction
  qed
  then have ht: "\<not> is_space (hd ?t)" by (rule hd_dropWhile)
  obtain ws where ws: "rev ?t = ws @ ?u"
    by (metis takeWhile_dropWhile_id)
  then have "?t = rev ?u @ rev ws" by (metis rev_append rev_rev_ident)
  then have "hd ?t = hd (rev ?u)" using u by (metis hd_append2 rev_is_Nil_conv)
  then have h: "\<not> is_space (hd (trim s))" using ht by (simp add: tr)
  show ?thesis using h l last_eq by (simp add: trimmed_def)
qed

lemma trim_idem: "trim (trim s) = trim s"
  by (rule trimmed_trim_id) (rule trimmed_trim)

lemma digit_not_space: "k < 10 \<Longrightarrow> \<not> is_space (''0123456789'' ! k)"
proof -
  assume "k < 10"
  then have "k \<in> {0,1,2,3,4,5,6,7,8,9}" by auto
  then show ?thesis by (auto simp: is_space_def)
qed

lemma show_nat_nonempty: "show_nat n \<noteq> []"
  by (subst show_nat.simps) simp

lemma show_nat_last: "\<not> is_space (last (show_nat n))"
  by (subst show_nat.simps) (simp add: digit_not_space)

lemma good_name_trim: "trim s \<noteq> [] \<Longrightarrow> good_name (trim s)"
  by (simp add: good_name_def trim_idem)

lemma good_name_trimmed: "s \<noteq> [] \<Longrightarrow> trimmed s \<Longrightarrow> good_name s"
  by (simp add: good_name_def trimmed_trim_id)

lemma fallback_ok_index: "c \<noteq> [] \<Longrightarrow> \<not> is_space (hd c) \<Longrightarrow> fallback_ok (c @ show_nat i)"
  by (simp add: fallback_ok_def show_nat_nonempty show_nat_last)

lemma sanitizeTestName_good:
  assumes "fallback_ok fb"
  shows "good_name (fst (sanitizeTestName opts nm fb ty st))"
proof -
  have a: "good_name (fb @ '' (auto-generated)'')"
    using assms by (intro good_name_trimmed) (auto simp: fallback_ok_def trimmed_def is_space_def)
  have b: "good_name fb"
    using assms by (intro good_name_trimmed) (auto simp: fallback_ok_def trimmed_def)
  have m: "good_name (fst (missing_name opts fb ty st))"
    using a b by (simp add: missing_name_def Let_def)
  show ?thesis
    using m by (auto simp: sanitizeTestName_def good_name_trim split: option.splits json.splits)
qed

lemma sanitizeTestName_fixed:
  "good_name n \<Longrightarrow> sanitizeTestName opts (Some (JStr n)) fb ty st = (n, st)"
  by (simp add: sanitizeTestName_def good_name_def)

lemma map_of_update:
  "map_of (AList.update k v al) k' = (if k' = k then Some v else map_of al k')"
  by (simp add: update_conv')

lemma jget_update:
  "jget (JObj (AList.update k v al)) k' = (if k' = k then Some v else map_of al k')"
  by (simp add: map_of_update)

lemma if_truthy_Some [simp]: "if_truthy (Some v) = (if truthy v then Some v else None)"
  by (simp add: if_truthy_def)

lemma if_truthy_None [simp]: "if_truthy None = None"
  by (simp add: if_truthy_def)

lemma truthy_js_or: "truthy d \<Longrightarrow> truthy (js_or x d)"
  by (cases x) (auto simp: js_or_def)

lemma js_or_truthy: "if_truthy x = Some v \<Longrightarrow> js_or x d = v"
  by (simp add: js_or_def)

lemma if_truthy_cases: "if_truthy x = None \<or> (\<exists>v. x = Some v \<and> truthy v \<and> if_truthy x = Some v)"
  by (cases x) auto

lemma truthy_default_result [simp]: "truthy default_result"
  by (simp add: default_result_def)

lemma is_record_JObj [simp]: "is_record (JObj kvs)"
  by (simp add: is_record_def)

lemma is_record_object: "is_record y \<Longrightarrow> truthy y \<and> is_object y \<and> JObj (own_props y) = y"
  by (auto simp: is_record_def)

lemma update_same: "map_of al k = Some v \<Longrightarrow> AList.update k v al = al"
  by (rule update_triv)

lemma sanitizeStep_sanitized:
  assumes "sanitizeStep opts s fi si i st = (Some y, st')"
  shows "sanitized_step y"
proof -
  have obj: "truthy s" "is_object s"
    using assms by (auto simp: sanitizeStep_def Let_def split: if_splits)
  obtain n st1 where n: "sanitizeTestName opts (jget s ''name'') (''Step '' @ show_nat i) ''step'' st = (n, st1)"
    by (cases "sanitizeTestName opts (jget s ''name'') (''Step '' @ show_nat i) ''step'' st")
  have "fallback_ok (''Step '' @ show_nat i)"
    by (rule fallback_ok_index) (simp_all add: is_space_def)
  from sanitizeTestName_good [OF this, of opts "jget s ''name''" "''step''" st] n
  have gn: "good_name n" by simp
  let ?kw = "js_or (jget s ''keyword'') (JStr ''Given '')"
  let ?base = "AList.update ''keyword'' ?kw (AList.update ''name'' (JStr n) (own_props s))"
  have kw: "truthy ?kw" by (rule truthy_js_or) simp
  show ?thesis
  proof (cases "if_truthy (jget s ''result'') = None \<and> if_truthy (jget s ''status'') = None")
    case True
    then have y: "y = JObj (AList.update ''result'' default_result ?base)"
      using assms obj n by (simp add: sanitizeStep_def Let_def)
    show ?thesis
      unfolding y sanitized_step_def sanitized_name_def
      using gn kw by (simp add: map_of_update)
  next
    case False
    then have y: "y = JObj ?base"
      using assms obj n by (auto simp: sanitizeStep_def Let_def)
    have r: "jget y ''result'' = jget s ''result''" "jget y ''status'' = jget s ''status''"
      unfolding y by (simp_all add: map_of_update jget_def)
    show ?thesis
      unfolding sanitized_step_def sanitized_name_def r
      using False gn kw unfolding y by (simp add: map_of_update)
  qed
qed

lemma sanitizeStep_fixed:
  assumes "sanitized_step y"
  shows "sanitizeStep opts y fi si i st = (Some y, st)"
proof -
  from assms obtain kvs where y: "y = JObj kvs" by (auto simp: sanitized_step_def is_record_def)
  from assms obtain n where n: "map_of kvs ''name'' = Some (JStr n)" and gn: "good_name n"
    unfolding y by (auto simp: sanitized_step_def sanitized_name_def)
  from assms obtain kw where kw: "map_of kvs ''keyword'' = Some kw" and tkw: "truthy kw"
    unfolding y using if_truthy_cases [of "map_of kvs ''keyword''"]
    by (auto simp: sanitized_step_def)
  from assms have rs: "(if_truthy (map_of kvs ''result'') = None \<and>
      if_truthy (map_of kvs ''status'') = None) = False"
    unfolding y by (auto simp: sanitized_step_def)
  have 1: "AList.update ''name'' (JStr n) kvs = kvs" using n by (rule update_same)
  have 2: "js_or (map_of kvs ''keyword'') (JStr ''Given '') = kw"
    using kw tkw by (simp add: js_or_def)
  have 3: "AList.update ''keyword'' kw kvs = kvs" using kw by (rule update_same)
  show ?thesis
    unfolding y sanitizeStep_def Let_def
    by (simp add: n sanitizeTestName_fixed [OF gn] 1 2 3 rs del: if_truthy_Some)
qed

lemma sanitizeHook_sanitized: "sanitized_hook (sanitizeHook h t)"
  by (simp add: sanitizeHook_def sanitized_hook_def map_of_update truthy_js_or)

lemma sanitizeHook_fixed:
  assumes "sanitized_hook y"
  shows "sanitizeHook y t = y"
proof -
  from assms obtain kvs where y: "y = JObj kvs" by (auto simp: sanitized_hook_def is_record_def)
  from assms obtain r where r: "map_of kvs ''result'' = Some r" and tr: "truthy r"
    unfolding y using if_truthy_cases [of "map_of kvs ''result''"]
    by (auto simp: sanitized_hook_def)
  from assms obtain m where m: "map_of kvs ''match'' = Some m" and tm: "truthy m"
    unfolding y using if_truthy_cases [of "map_of kvs ''match''"]
    by (auto simp: sanitized_hook_def)
  have 1: "js_or (map_of kvs ''result'') default_result = r" using r tr by (simp add: js_or_def)
  have 2: "js_or (map_of kvs ''match'') d = m" for d using m tm by (simp add: js_or_def)
  have 3: "AList.update ''result'' r kvs = kvs" using r by (rule update_same)
  have 4: "AList.update ''match'' m kvs = kvs" using m by (rule update_same)
  show ?thesis
    unfolding y sanitizeHook_def by (simp add: 1 2 3 4)
qed

lemma steps_map_sanitized:
  "steps_map opts fi si i steps st = (rs, st') \<Longrightarrow>
   \<forall>y \<in> set (non_null rs). sanitized_step y"
proof (induction steps arbitrary: i st rs st')
  case Nil
  then show ?case by simp
next
  case (Cons s steps)
  obtain r st1 where r: "sanitizeStep opts s fi si i st = (r, st1)"
    by (cases "sanitizeStep opts s fi si i st")
  obtain rs1 st2 where rs1: "steps_map opts fi si (Suc i) steps st1 = (rs1, st2)"
    by (cases "steps_map opts fi si (Suc i) steps st1")
  from Cons.prems r rs1 have rs: "rs = r # rs1" by simp
  have ih: "\<forall>y \<in> set (non_null rs1). sanitized_step y"
    using Cons.IH [OF rs1] .
  show ?case
  proof (cases r)
    case None
    then show ?thesis using ih by (simp add: rs)
  next
    case (Some y)
    then have "sanitized_step y" using r sanitizeStep_sanitized by blast
    then show ?thesis using ih Some by (simp add: rs)
  qed
qed

lemma steps_map_fixed:
  "\<forall>y \<in> set ys. sanitized_step y \<Longrightarrow> steps_map opts fi si i ys st = (map Some ys, st)"
  by (induction ys arbitrary: i) (simp_all add: sanitizeStep_fixed)

lemma map_filter_map_Some: "non_null (map Some ys) = ys"
  by (induction ys) simp_all

lemma sanitized_items_simps [simp]:
  "sanitized_items P (Some (JArr xs)) = (\<forall>y \<in> set xs. P y)"
  "sanitized_items P None = True"
  by (simp_all add: sanitized_items_def array_items_def)

lemma sanitized_items_other: "(\<And>xs. x \<noteq> Some (JArr xs)) \<Longrightarrow> sanitized_items P x"
  by (auto simp: sanitized_items_def array_items_def split: option.splits json.splits)

lemma steps_field_lookup:
  assumes "sanitize_steps_field opts sc fi si props st = (props', st')"
  shows "k \<noteq> ''steps'' \<Longrightarrow> map_of props' k = map_of props k"
    and "map_of props ''steps'' = jget sc ''steps'' \<Longrightarrow>
         sanitized_items sanitized_step (map_of props' ''steps'')"
proof -
  show "map_of props' k = map_of props k" if "k \<noteq> ''steps''"
    using assms that
    by (auto simp: sanitize_steps_field_def map_of_update split: option.splits json.splits prod.splits)
  show "sanitized_items sanitized_step (map_of props' ''steps'')"
    if eq: "map_of props ''steps'' = jget sc ''steps''"
  proof (cases "\<exists>steps. jget sc ''steps'' = Some (JArr steps)")
    case True
    then obtain steps where s: "jget sc ''steps'' = Some (JArr steps)" by blast
    obtain rs st1 where m: "steps_map opts fi si 0 steps st = (rs, st1)"
      by (cases "steps_map opts fi si 0 steps st")
    from assms s m have "props' = AList.update ''steps'' (JArr (non_null rs)) props"
      by (simp add: sanitize_steps_field_def)
    then show ?thesis using steps_map_sanitized [OF m] by (simp add: map_of_update)
  next
    case False
    then have "props' = props"
      using assms by (auto simp: sanitize_steps_field_def split: option.splits json.splits)
    then show ?thesis using False eq by (intro sanitized_items_other) auto
  qed
qed

lemma steps_field_fixed:
  assumes "sanitized_items sanitized_step (map_of kvs ''steps'')"
  shows "sanitize_steps_field opts (JObj kvs) fi si kvs st = (kvs, st)"
proof (cases "\<exists>steps. map_of kvs ''steps'' = Some (JArr steps)")
  case True
  then obtain steps where s: "map_of kvs ''steps'' = Some (JArr steps)" by blast
  with assms have "\<forall>y \<in> set steps. sanitized_step y" by simp
  then have "steps_map opts fi si 0 steps st = (map Some steps, st)" by (rule steps_map_fixed)
  then show ?thesis
    using s by (simp add: sanitize_steps_field_def map_filter_map_Some update_same)
next
  case False
  then show ?thesis
    by (auto simp: sanitize_steps_field_def split: option.splits json.splits)
qed

lemma hooks_field_lookup:
  "k \<noteq> t \<Longrightarrow> map_of (sanitize_hooks_field t sc props) k = map_of props k"
  "map_of props t = jget sc t \<Longrightarrow>
     sanitized_items sanitized_hook (map_of (sanitize_hooks_field t sc props) t)"
proof -
  show "map_of (sanitize_hooks_field t sc props) k = map_of props k" if "k \<noteq> t"
    using that
    by (auto simp: sanitize_hooks_field_def map_of_update split: option.splits json.splits)
  show "sanitized_items sanitized_hook (map_of (sanitize_hooks_field t sc props) t)"
    if eq: "map_of props t = jget sc t"
  proof (cases "\<exists>hooks. jget sc t = Some (JArr hooks)")
    case True
    then obtain hooks where s: "jget sc t = Some (JArr hooks)" by blast
    then show ?thesis
      by (simp add: sanitize_hooks_field_def map_of_update sanitizeHook_sanitized)
  next
    case False
    then have "sanitize_hooks_field t sc props = props"
      by (auto simp: sanitize_hooks_field_def split: option.splits json.splits)
    then show ?thesis using False eq by (intro sanitized_items_other) auto
  qed
qed

lemma hooks_field_fixed:
  assumes "sanitized_items sanitized_hook (map_of kvs t)"
  shows "sanitize_hooks_field t (JObj kvs) kvs = kvs"
proof (cases "\<exists>hooks. map_of kvs t = Some (JArr hooks)")
  case True
  then obtain hooks where s: "map_of kvs t = Some (JArr hooks)" by blast
  with assms have "\<forall>y \<in> set hooks. sanitized_hook y" by simp
  then have "map (\<lambda>hook. sanitizeHook hook t) hooks = hooks"
    by (induction hooks) (simp_all add: sanitizeHook_fixed)
  then show ?thesis
    using s by (simp add: sanitize_hooks_field_def update_same)
next
  case False
  then show ?thesis
    by (auto simp: sanitize_hooks_field_def split: option.splits json.splits)
qed

lemma generateId_nonempty: "generateId nm fi si = Inr s \<Longrightarrow> s \<noteq> []"
  by (auto simp: generateId_def split: json.splits)

lemma sanitizeScenario_sanitized:
  assumes "sanitizeScenario opts sc fi si st = (Inr (Some y), st')"
  shows "sanitized_scenario y"
proof -
  have obj: "truthy sc" "is_object sc"
    using assms by (auto simp: sanitizeScenario_def split: if_splits)
  obtain n st1 where n: "sanitizeTestName opts (jget sc ''name'') (''Scenario '' @ show_nat si)
      ''scenario'' st = (n, st1)"
    by (cases "sanitizeTestName opts (jget sc ''name'') (''Scenario '' @ show_nat si) ''scenario'' st")
  have "fallback_ok (''Scenario '' @ show_nat si)"
    by (rule fallback_ok_index) (simp_all add: is_space_def)
  from sanitizeTestName_good [OF this, of opts "jget sc ''name''" "''scenario''" st] n
  have gn: "good_name n" by simp
  let ?idr = "case if_truthy (jget sc ''id'') of
                Some v \<Rightarrow> Inr v
              | None \<Rightarrow> (case generateId (jget sc ''name'') fi si of
                           Inl e \<Rightarrow> Inl e | Inr s \<Rightarrow> Inr (JStr s))"
  obtain ident where ident: "?idr = Inr ident"
    using assms obj n by (cases ?idr) (auto simp: sanitizeScenario_def)
  have tid: "truthy ident"
    using ident if_truthy_cases [of "jget sc ''id''"]
    by (auto split: option.splits sum.splits dest: generateId_nonempty)
  let ?ty = "js_or (jget sc ''type'') (JStr ''scenario'')"
  have tty: "truthy ?ty" by (rule truthy_js_or) simp
  let ?p0 = "AList.update ''type'' ?ty
               (AList.update ''id'' ident (AList.update ''name'' (JStr n) (own_props sc)))"
  obtain p1 st2 where p1: "sanitize_steps_field opts sc fi si ?p0 st1 = (p1, st2)"
    by (cases "sanitize_steps_field opts sc fi si ?p0 st1")
  let ?p2 = "sanitize_hooks_field ''before'' sc p1"
  let ?p3 = "sanitize_hooks_field ''after'' sc ?p2"
  have y: "y = JObj ?p3"
    using assms obj n ident p1 by (simp add: sanitizeScenario_def)
  have l1: "map_of p1 k = map_of ?p0 k" if "k \<noteq> ''steps''" for k
    using steps_field_lookup(1) [OF p1 that] .
  have name: "map_of ?p3 ''name'' = Some (JStr n)"
    by (simp add: hooks_field_lookup(1) l1 map_of_update)
  have ident': "map_of ?p3 ''id'' = Some ident"
    by (simp add: hooks_field_lookup(1) l1 map_of_update)
  have ty: "map_of ?p3 ''type'' = Some ?ty"
    by (simp add: hooks_field_lookup(1) l1 map_of_update)
  have "map_of ?p0 ''steps'' = jget sc ''steps''"
    by (simp add: map_of_update jget_def)
  from steps_field_lookup(2) [OF p1 this]
  have steps: "sanitized_items sanitized_step (map_of ?p3 ''steps'')"
    by (simp add: hooks_field_lookup(1))
  have "map_of p1 ''before'' = jget sc ''before''"
    by (simp add: l1 map_of_update jget_def)
  from hooks_field_lookup(2) [OF this]
  have before: "sanitized_items sanitized_hook (map_of ?p3 ''before'')"
    by (simp add: hooks_field_lookup(1))
  have "map_of ?p2 ''after'' = jget sc ''after''"
    by (simp add: hooks_field_lookup(1) l1 map_of_update jget_def)
  from hooks_field_lookup(2) [OF this]
  have after: "sanitized_items sanitized_hook (map_of ?p3 ''after'')" .
  show ?thesis
    unfolding sanitized_scenario_def sanitized_name_def y
    using name ident' ty steps before after gn tid tty by simp
qed

lemma sanitizeScenario_fixed:
  assumes "sanitized_scenario y"
  shows "sanitizeScenario opts y fi si st = (Inr (Some y), st)"
proof -
  from assms obtain kvs where y: "y = JObj kvs"
    by (auto simp: sanitized_scenario_def is_record_def)
  from assms obtain n where n: "map_of kvs ''name'' = Some (JStr n)" and gn: "good_name n"
    unfolding y by (auto simp: sanitized_scenario_def sanitized_name_def)
  from assms obtain ident where ident: "map_of kvs ''id'' = Some ident" and tid: "truthy ident"
    unfolding y using if_truthy_cases [of "map_of kvs ''id''"]
    by (auto simp: sanitized_scenario_def)
  from assms obtain ty where ty: "map_of kvs ''type'' = Some ty" and tty: "truthy ty"
    unfolding y using if_truthy_cases [of "map_of kvs ''type''"]
    by (auto simp: sanitized_scenario_def)
  from assms have steps: "sanitized_items sanitized_step (map_of kvs ''steps'')"
    and before: "sanitized_items sanitized_hook (map_of kvs ''before'')"
    and after: "sanitized_items sanitized_hook (map_of kvs ''after'')"
    unfolding y by (auto simp: sanitized_scenario_def)
  have 1: "AList.update ''name'' (JStr n) kvs = kvs" using n by (rule update_same)
  have 2: "AList.update ''id'' ident kvs = kvs" using ident by (rule update_same)
  have 3: "js_or (map_of kvs ''type'') (JStr ''scenario'') = ty"
    using ty tty by (simp add: js_or_def)
  have 4: "AList.update ''type'' ty kvs = kvs" using ty by (rule update_same)
  show ?thesis
    unfolding y sanitizeScenario_def
    by (simp add: n ident tid sanitizeTestName_fixed [OF gn] 1 2 3 4
        steps_field_fixed [OF steps] hooks_field_fixed [OF before] hooks_field_fixed [OF after])
qed

lemma elements_loop_sanitized:
  "elements_loop opts fi j els st = (ys, st') \<Longrightarrow> \<forall>y \<in> set ys. sanitized_scenario y"
proof (induction els arbitrary: j st ys st')
  case Nil
  then show ?case by simp
next
  case (Cons el els)
  obtain r st1 where r: "sanitizeScenario opts el fi j st = (r, st1)"
    by (cases "sanitizeScenario opts el fi j st")
  show ?case
  proof (cases r)
    case (Inl e)
    obtain msg where e: "e = TypeError msg" by (cases e)
    from Cons.prems r Inl e
    have "elements_loop opts fi (Suc j) els
            (addError opts (''Feature '' @ show_nat fi @ '', Scenario '' @ show_nat j) msg st1)
          = (ys, st')"
      by simp
    then show ?thesis by (rule Cons.IH)
  next
    case (Inr o1)
    show ?thesis
    proof (cases o1)
      case None
      from Cons.prems r Inr None
      have "elements_loop opts fi (Suc j) els (st1\<lparr>skippedEntries := skippedEntries st1 + 1\<rparr>)
            = (ys, st')"
        by simp
      then show ?thesis by (rule Cons.IH)
    next
      case (Some s)
      obtain rest st2 where rest: "elements_loop opts fi (Suc j) els st1 = (rest, st2)"
        by (cases "elements_loop opts fi (Suc j) els st1")
      from Cons.prems r Inr Some rest have ys: "ys = s # rest" by simp
      have "sanitized_scenario s"
        using r Inr Some sanitizeScenario_sanitized by blast
      then show ?thesis using Cons.IH [OF rest] by (simp add: ys)
    qed
  qed
qed

lemma elements_loop_fixed:
  "\<forall>y \<in> set ys. sanitized_scenario y \<Longrightarrow> elements_loop opts fi j ys st = (ys, st)"
  by (induction ys arbitrary: j) (simp_all add: sanitizeScenario_fixed)

lemma sanitizeFeature_sanitized:
  assumes "sanitizeFeature opts f fi st = (Some y, st')"
  shows "sanitized_feature y"
proof -
  have obj: "truthy f" "is_object f"
    using assms by (auto simp: sanitizeFeature_def split: if_splits)
  obtain n st1 where n: "sanitizeTestName opts (jget f ''name'') (''Feature '' @ show_nat fi)
      ''feature'' st = (n, st1)"
    by (cases "sanitizeTestName opts (jget f ''name'') (''Feature '' @ show_nat fi) ''feature'' st")
  have "fallback_ok (''Feature '' @ show_nat fi)"
    by (rule fallback_ok_index) (simp_all add: is_space_def)
  from sanitizeTestName_good [OF this, of opts "jget f ''name''" "''feature''" st] n
  have gn: "good_name n" by simp
  let ?els = "js_or (jget f ''elements'') (js_or (jget f ''scenarios'') (JArr []))"
  let ?base = "AList.update ''name'' (JStr n) (own_props f)"
  show ?thesis
  proof (cases "\<exists>els. ?els = JArr els")
    case True
    then obtain els where els: "?els = JArr els" by blast
    obtain ses st2 where ses: "elements_loop opts fi 0 els st1 = (ses, st2)"
      by (cases "elements_loop opts fi 0 els st1")
    have y: "y = JObj (AList.update ''elements'' (JArr ses) ?base)"
      using assms obj n els ses by (simp add: sanitizeFeature_def Let_def)
    show ?thesis
      unfolding sanitized_feature_def sanitized_name_def y
      using gn elements_loop_sanitized [OF ses] by (simp add: map_of_update)
  next
    case False
    then have y: "y = JObj (AList.update ''elements'' (JArr []) ?base)"
      using assms obj n by (auto simp: sanitizeFeature_def Let_def split: json.splits)
    show ?thesis
      unfolding sanitized_feature_def sanitized_name_def y
      using gn by (simp add: map_of_update)
  qed
qed

lemma sanitizeFeature_fixed:
  assumes "sanitized_feature y"
  shows "sanitizeFeature opts y fi st = (Some y, st)"
proof -
  from assms obtain kvs where y: "y = JObj kvs"
    by (auto simp: sanitized_feature_def is_record_def)
  from assms obtain n where n: "map_of kvs ''name'' = Some (JStr n)" and gn: "good_name n"
    unfolding y by (auto simp: sanitized_feature_def sanitized_name_def)
  from assms obtain els where els: "map_of kvs ''elements'' = Some (JArr els)"
    and san: "\<forall>e \<in> set els. sanitized_scenario e"
    unfolding y by (auto simp: sanitized_feature_def)
  have 1: "AList.update ''name'' (JStr n) kvs = kvs" using n by (rule update_same)
  have 2: "js_or (map_of kvs ''elements'') d = JArr els" for d
    using els by (simp add: js_or_def)
  have 3: "AList.update ''elements'' (JArr els) kvs = kvs" using els by (rule update_same)
  show ?thesis
    unfolding y sanitizeFeature_def Let_def
    by (simp add: n sanitizeTestName_fixed [OF gn] 1 2 3 elements_loop_fixed [OF san])
qed

lemma features_loop_sanitized:
  "features_loop opts i fs st = (ys, sk, st') \<Longrightarrow> \<forall>y \<in> set ys. sanitized_feature y"
proof (induction fs arbitrary: i st ys sk st')
  case Nil
  then show ?case by simp
next
  case (Cons f fs)
  obtain r st1 where r: "sanitizeFeature opts f i st = (r, st1)"
    by (cases "sanitizeFeature opts f i st")
  show ?case
  proof (cases r)
    case None
    obtain rest sk1 st2 where rest:
      "features_loop opts (Suc i) fs (st1\<lparr>skippedEntries := skippedEntries st1 + 1\<rparr>)
         = (rest, sk1, st2)"
      by (cases "features_loop opts (Suc i) fs (st1\<lparr>skippedEntries := skippedEntries st1 + 1\<rparr>)")
    from Cons.prems r None rest have "ys = rest" by simp
    then show ?thesis using Cons.IH [OF rest] by simp
  next
    case (Some s)
    obtain rest sk1 st2 where rest:
      "features_loop opts (Suc i) fs (st1\<lparr>processedEntries := processedEntries st1 + 1\<rparr>)
         = (rest, sk1, st2)"
      by (cases "features_loop opts (Suc i) fs (st1\<lparr>processedEntries := processedEntries st1 + 1\<rparr>)")
    from Cons.prems r Some rest have ys: "ys = s # rest" by simp
    have "sanitized_feature s" using r Some sanitizeFeature_sanitized by blast
    then show ?thesis using Cons.IH [OF rest] by (simp add: ys)
  qed
qed

lemma features_loop_fixed:
  "\<forall>y \<in> set ys. sanitized_feature y \<Longrightarrow> \<exists>st'. features_loop opts i ys st = (ys, [], st')"
proof (induction ys arbitrary: i st)
  case Nil
  then show ?case by simp
next
  case (Cons y ys)
  then have y: "sanitized_feature y" and rest: "\<forall>y \<in> set ys. sanitized_feature y" by simp_all
  from Cons.IH [OF rest, of "Suc i" "st\<lparr>processedEntries := processedEntries st + 1\<rparr>"]
  obtain st' where "features_loop opts (Suc i) ys (st\<lparr>processedEntries := processedEntries st + 1\<rparr>)
      = (ys, [], st')" by blast
  then show ?case by (simp add: sanitizeFeature_fixed [OF y])
qed

lemma countOriginalEntries_ok:
  "JNull \<notin> set ys \<Longrightarrow> \<exists>n. countOriginalEntries ys = Inr n"
  by (induction ys) auto

lemma sanitized_feature_not_null: "sanitized_feature y \<Longrightarrow> y \<noteq> JNull"
  by (auto simp: sanitized_feature_def is_record_def)

lemma validateReport_sanitized:
  assumes "sanitizedData (validateReport opts r) = Some ys"
  shows "\<forall>y \<in> set ys. sanitized_feature y"
proof -
  from assms obtain fs where r: "r = JArr fs"
    by (cases r) (auto simp: validateReport_def)
  from assms obtain n where n: "countOriginalEntries fs = Inr n"
    unfolding r by (cases "countOriginalEntries fs") (auto simp: validateReport_def Let_def split: js_error.splits)
  let ?st = "if length fs = 0 then addWarning ''Root'' ''Empty features array'' reset else reset"
  obtain zs sk st1 where l: "features_loop opts 0 fs ?st = (zs, sk, st1)"
    by (cases "features_loop opts 0 fs ?st")
  from assms have "ys = zs"
    unfolding r validateReport_def Let_def using n l by simp
  then show ?thesis using features_loop_sanitized [OF l] by simp
qed

lemma validateReport_fixed:
  assumes "\<forall>y \<in> set ys. sanitized_feature y"
  shows "sanitizedData (validateReport opts (JArr ys)) = Some ys"
proof -
  have "JNull \<notin> set ys" using assms sanitized_feature_not_null by blast
  then obtain n where n: "countOriginalEntries ys = Inr n"
    using countOriginalEntries_ok by blast
  let ?st = "if length ys = 0 then addWarning ''Root'' ''Empty features array'' reset else reset"
  from features_loop_fixed [OF assms, of opts 0 ?st]
  obtain st' where l: "features_loop opts 0 ys ?st = (ys, [], st')" by blast
  show ?thesis
    unfolding validateReport_def Let_def using n l by simp
qed

lemma c9_report_sanitized:
  "sanitizedData (validateReport default_validator_options c9_report) = Some [c9_sanitized_feature]"
  by code_simp

lemma sanitized_step_status: "sanitized_step y \<Longrightarrow> has_result_or_status y"
  by (simp add: sanitized_step_def has_result_or_status_def)

lemma sanitizeStep_keeps:
  assumes "is_object step" and "if_truthy (jget step ''result'') = None"
    and "if_truthy (jget step ''status'') \<noteq> None"
  shows "\<exists>y st'. sanitizeStep opts step fi si i st = (Some y, st') \<and>
           jget y ''result'' = jget step ''result'' \<and> if_truthy (jget y ''result'') = None \<and>
           jget y ''status'' = jget step ''status''"
proof -
  obtain n st1 where n: "sanitizeTestName opts (jget step ''name'') (''Step '' @ show_nat i)
      ''step'' st = (n, st1)"
    by (cases "sanitizeTestName opts (jget step ''name'') (''Step '' @ show_nat i) ''step'' st")
  have t: "truthy step" using assms(1) by (cases step) auto
  from assms(3) have c: "(if_truthy (jget step ''result'') = None \<and>
      if_truthy (jget step ''status'') = None) = False"
    by simp
  have s: "sanitizeStep opts step fi si i st =
      (Some (JObj (AList.update ''keyword'' (js_or (jget step ''keyword'') (JStr ''Given ''))
                     (AList.update ''name'' (JStr n) (own_props step)))), st1)"
    using assms(1) t n by (simp add: sanitizeStep_def Let_def c)
  have "map_of (AList.update ''keyword'' (js_or (jget step ''keyword'') (JStr ''Given ''))
                  (AList.update ''name'' (JStr n) (own_props step))) k = jget step k"
    if "k \<noteq> ''keyword''" "k \<noteq> ''name''" for k
    using that by (simp add: map_of_update jget_def)
  then show ?thesis
    using assms(2) by (simp add: s)
qed

lemma sanitizeStep_default:
  assumes "is_object step" and "\<not> has_result_or_status step"
  shows "\<exists>y st'. sanitizeStep opts step fi si i st = (Some y, st') \<and>
           jget y ''result'' = Some default_result"
proof -
  obtain n st1 where n: "sanitizeTestName opts (jget step ''name'') (''Step '' @ show_nat i)
      ''step'' st = (n, st1)"
    by (cases "sanitizeTestName opts (jget step ''name'') (''Step '' @ show_nat i) ''step'' st")
  have t: "truthy step" using assms(1) by (cases step) auto
  from assms(2) have none: "if_truthy (jget step ''result'') = None"
      "if_truthy (jget step ''status'') = None"
    by (auto simp: has_result_or_status_def)
  show ?thesis
    using assms(1) t n none by (simp add: sanitizeStep_def Let_def map_of_update)
qed

text \<open>
  Claim C6. Sanitization is idempotent: sanitizing the sanitized report of any raw report
  gives that sanitized report again (and no sanitized report again when the first call gave
  none).
\<close>

theorem sanitize_idempotent:
  "sanitizedData (validateReport opts (report_value (sanitizedData (validateReport opts r)))) =
   sanitizedData (validateReport opts r)"
proof (cases "sanitizedData (validateReport opts r)")
  case None
  then show ?thesis by (simp add: report_value_def validateReport_def)
next
  case (Some ys)
  then have "\<forall>y \<in> set ys. sanitized_feature y" by (rule validateReport_sanitized)
  then show ?thesis by (simp add: Some report_value_def validateReport_fixed)
qed

theorem sanitize_idempotent_witness:
  "sanitizedData (validateReport default_validator_options (JArr [c9_sanitized_feature])) =
   Some [c9_sanitized_feature]"
  using sanitize_idempotent [of default_validator_options c9_report]
  by (simp add: c9_report_sanitized report_value_def)

text \<open>
  Claim C9, as amended. Every step of every scenario of the sanitized report has a truthy
  \<open>result\<close> or a truthy \<open>status\<close>; a step that came with neither gets the result
  \<open>{status: 'unknown', duration: 0}\<close>; and a step that came with a truthy \<open>status\<close>
  of its own and no truthy \<open>result\<close> keeps its \<open>status\<close> and is left without a
  \<open>result\<close> (the property stays as it came: absent, or falsy). The claim said that
  every sanitized step has a \<open>result\<close>.
\<close>

theorem sanitized_steps_have_result_or_status:
  "(sanitizedData (validateReport opts r) = Some fs \<longrightarrow>
      (\<forall>f \<in> set fs. \<forall>sc \<in> set (array_items (jget f ''elements'')).
         \<forall>step \<in> set (array_items (jget sc ''steps'')). has_result_or_status step)) \<and>
   (is_object step0 \<and> \<not> has_result_or_status step0 \<longrightarrow>
      (\<exists>y st'. sanitizeStep opts step0 fi si i st = (Some y, st') \<and>
         jget y ''result'' = Some default_result)) \<and>
   (is_object step1 \<and> if_truthy (jget step1 ''result'') = None \<and>
    if_truthy (jget step1 ''status'') \<noteq> None \<longrightarrow>
      (\<exists>y st'. sanitizeStep opts step1 fi si i st = (Some y, st') \<and>
         jget y ''result'' = jget step1 ''result'' \<and> if_truthy (jget y ''result'') = None \<and>
         jget y ''status'' = jget step1 ''status''))"
proof (intro conjI impI ballI)
  fix f sc step
  assume d: "sanitizedData (validateReport opts r) = Some fs" and f: "f \<in> set fs"
    and sc: "sc \<in> set (array_items (jget f ''elements''))"
    and step: "step \<in> set (array_items (jget sc ''steps''))"
  from validateReport_sanitized [OF d] f have "sanitized_feature f" by blast
  then obtain els where "jget f ''elements'' = Some (JArr els)"
    and "\<forall>e \<in> set els. sanitized_scenario e"
    by (auto simp: sanitized_feature_def)
  with sc have "sanitized_scenario sc" by (simp add: array_items_def)
  then have "sanitized_items sanitized_step (jget sc ''steps'')"
    by (simp add: sanitized_scenario_def)
  with step have "sanitized_step step" by (simp add: sanitized_items_def)
  then show "has_result_or_status step" by (rule sanitized_step_status)
next
  assume "is_object step0 \<and> \<not> has_result_or_status step0"
  then show "\<exists>y st'. sanitizeStep opts step0 fi si i st = (Some y, st') \<and>
         jget y ''result'' = Some default_result"
    using sanitizeStep_default by blast
next
  assume "is_object step1 \<and> if_truthy (jget step1 ''result'') = None \<and>
    if_truthy (jget step1 ''status'') \<noteq> None"
  then show "\<exists>y st'. sanitizeStep opts step1 fi si i st = (Some y, st') \<and>
         jget y ''result'' = jget step1 ''result'' \<and> if_truthy (jget y ''result'') = None \<and>
         jget y ''status'' = jget step1 ''status''"
    using sanitizeStep_keeps by blast
qed

theorem sanitized_steps_have_result_or_status_witness:
  "sanitizedData (validateReport default_validator_options c9_report) = Some [c9_sanitized_feature] \<and>
   has_result_or_status c9_sanitized_step \<and>
   (\<exists>y st'. sanitizeStep default_validator_options (JObj [(''name'', JStr ''t'')]) 0 0 1 reset
                = (Some y, st') \<and>
     jget y ''result'' = Some default_result) \<and>
   (\<exists>y st'. sanitizeStep default_validator_options
                (JObj [(''name'', JStr ''s''), (''status'', JStr ''passed'')]) 0 0 1 reset
                = (Some y, st') \<and>
     jget y ''result'' = None \<and> jget y ''status'' = Some (JStr ''passed''))"
proof -
  let ?s0 = "JObj [(''name'', JStr ''t'')]"
  let ?s1 = "JObj [(''name'', JStr ''s''), (''status'', JStr ''passed'')]"
  note th = sanitized_steps_have_result_or_status
      [of default_validator_options c9_report "[c9_sanitized_feature]" ?s0 0 0 1 reset ?s1]
  have a: "\<forall>f \<in> set [c9_sanitized_feature]. \<forall>sc \<in> set (array_items (jget f ''elements'')).
         \<forall>step \<in> set (array_items (jget sc ''steps'')). has_result_or_status step"
    using th c9_report_sanitized by blast
  have "c9_sanitized_step \<in> set (array_items (jget c9_sanitized_scenario ''steps''))"
    "c9_sanitized_scenario \<in> set (array_items (jget c9_sanitized_feature ''elements''))"
    by (simp_all add: c9_sanitized_scenario_def c9_sanitized_feature_def array_items_def)
  with a have b: "has_result_or_status c9_sanitized_step" by simp
  have "is_object ?s0 \<and> \<not> has_result_or_status ?s0"
    by (simp add: has_result_or_status_def)
  with th have c: "\<exists>y st'. sanitizeStep default_validator_options ?s0 0 0 1 reset = (Some y, st') \<and>
      jget y ''result'' = Some default_result"
    by blast
  have k: "is_object ?s1 \<and> if_truthy (jget ?s1 ''result'') = None \<and>
      if_truthy (jget ?s1 ''status'') \<noteq> None"
    by simp
  have r: "jget ?s1 ''result'' = None" "jget ?s1 ''status'' = Some (JStr ''passed'')"
    by simp_all
  from th k have "\<exists>y st'. sanitizeStep default_validator_options ?s1 0 0 1 reset = (Some y, st') \<and>
      jget y ''result'' = jget ?s1 ''result'' \<and> if_truthy (jget y ''result'') = None \<and>
      jget y ''status'' = jget ?s1 ''status''"
    by blast
  then have e: "\<exists>y st'. sanitizeStep default_validator_options ?s1 0 0 1 reset = (Some y, st') \<and>
      jget y ''result'' = None \<and> jget y ''status'' = Some (JStr ''passed'')"
    unfolding r by blast
  show ?thesis using c9_report_sanitized b c e by blast
qed

text \<open>
  The step of the example report keeps its \<open>status\<close> and has no \<open>result\<close> after
  sanitization.
\<close>

theorem sanitized_step_result_counterexample:
  "sanitizedData (validateReport default_validator_options c9_report) = Some [c9_sanitized_feature] \<and>
   array_items (jget c9_sanitized_feature ''elements'') = [c9_sanitized_scenario] \<and>
   array_items (jget c9_sanitized_scenario ''steps'') = [c9_sanitized_step] \<and>
   jget c9_sanitized_step ''result'' = None"
  by (simp add: c9_report_sanitized)
     (simp add: c9_sanitized_feature_def c9_sanitized_scenario_def c9_sanitized_step_def
       array_items_def)

end
